theory Spec2Isabelle
  imports Complex_Main
begin

section \<open>Profile merging (profiling/integration.ts)\<close>

text \<open>
  JavaScript values that the code tests with \<open>typeof\<close>, truthiness or optional
  chaining are modelled explicitly: an optional field is an \<open>option\<close>, a thrown
  \<open>TypeError\<close> (reading a property of \<open>undefined\<close>) is the left injection of a sum.
  JavaScript numbers that hold indices and counts are modelled as \<open>int\<close>.
\<close>

datatype error = TypeError

record ThreadCpuFrame =
  function_name :: "string option"
  abs_path :: "string option"
  lineno :: "int option"
  colno :: "int option"
  instruction_addr :: "string option"
  platform :: "string option"

record ThreadCpuSample =
  stack_id :: int
  thread_id :: string
  queue_address :: "string option"
  elapsed_since_start_ns :: string

record thread_meta =
  name :: "string option"
  priority :: "int option"

record queue_meta =
  label :: string

record ThreadCpuProfile =
  samples :: "ThreadCpuSample list option"
  stacks :: "int list list option"
  frames :: "ThreadCpuFrame list option"
  thread_metadata :: "(string \<rightharpoonup> thread_meta) option"
  queue_metadata :: "(string \<rightharpoonup> queue_meta) option"

text \<open>\<open>{ ...x }\<close>: spreading \<open>undefined\<close> contributes no keys.\<close>

definition spread :: "('k \<rightharpoonup> 'v) option \<Rightarrow> ('k \<rightharpoonup> 'v)" where
  "spread m = (case m of None \<Rightarrow> Map.empty | Some f \<Rightarrow> f)"

text \<open>\<open>xs || []\<close>: an array (even an empty one) is truthy, \<open>undefined\<close> is not.\<close>

definition or_empty :: "'a list option \<Rightarrow> 'a list" where
  "or_empty xs = (case xs of None \<Rightarrow> [] | Some ys \<Rightarrow> ys)"

text \<open>The frame pushed for a native frame: only \<open>function\<close> and \<open>instruction_addr\<close>
  are copied; \<open>platform\<close> is \<open>'cocoa'\<close> on iOS and \<open>undefined\<close> elsewhere.\<close>

definition nativeFrame :: "string \<Rightarrow> ThreadCpuFrame \<Rightarrow> ThreadCpuFrame" where
  "nativeFrame platform_OS frame =
     \<lparr> function_name = function_name frame,
       abs_path = None,
       lineno = None,
       colno = None,
       instruction_addr = instruction_addr frame,
       platform = (if platform_OS = ''ios'' then Some ''cocoa'' else None) \<rparr>"

text \<open>The \<open>for (const frame of native.frames) hermes.frames.push(...)\<close> loop.\<close>

fun pushFrames :: "string \<Rightarrow> ThreadCpuFrame list \<Rightarrow> ThreadCpuFrame list \<Rightarrow> ThreadCpuFrame list" where
  "pushFrames platform_OS hermes_frames [] = hermes_frames"
| "pushFrames platform_OS hermes_frames (frame # rest) =
     pushFrames platform_OS (hermes_frames @ [nativeFrame platform_OS frame]) rest"

text \<open>
  \<open>addNativeThreadCpuProfileToHermes(hermes, native, hermes_active_thread_id)\<close>.
  The two profiles are distinct objects (they come from two separate conversions in
  \<open>stopProfiling\<close>). \<open>hermes.frames.length\<close> and \<open>hermes.stacks.length\<close> are read without
  a guard, so an undefined \<open>hermes.frames\<close> or \<open>hermes.stacks\<close> throws; the native
  fields are guarded by \<open>if (native.frames)\<close> and \<open>|| []\<close>.
\<close>

definition addNativeThreadCpuProfileToHermes ::
  "string \<Rightarrow> ThreadCpuProfile \<Rightarrow> ThreadCpuProfile \<Rightarrow> string option \<Rightarrow> error + ThreadCpuProfile" where
  "addNativeThreadCpuProfileToHermes platform_OS hermes native hermes_active_thread_id =
     (let thread_metadata' = spread (thread_metadata native) ++ spread (thread_metadata hermes);
          queue_metadata' = spread (queue_metadata native) ++ spread (queue_metadata hermes)
      in case frames hermes of
           None \<Rightarrow> Inl TypeError
         | Some hermes_frames \<Rightarrow>
             (case stacks hermes of
                None \<Rightarrow> Inl TypeError
              | Some hermes_stacks \<Rightarrow>
                  (let framesOffset = int (length hermes_frames);
                       stacksOffset = int (length hermes_stacks);
                       frames' = (case frames native of
                                    None \<Rightarrow> hermes_frames
                                  | Some native_frames \<Rightarrow>
                                      pushFrames platform_OS hermes_frames native_frames);
                       stacks' = hermes_stacks @
                                   map (\<lambda>stack. map (\<lambda>frameId. frameId + framesOffset) stack)
                                     (or_empty (stacks native));
                       samples' = or_empty (samples hermes) @
                                    map (\<lambda>sample. sample\<lparr>stack_id := stacksOffset + stack_id sample\<rparr>)
                                      (filter (\<lambda>sample. Some (thread_id sample) \<noteq> hermes_active_thread_id)
                                         (or_empty (samples native)))
                   in Inr (hermes\<lparr> thread_metadata := Some thread_metadata',
                                   queue_metadata := Some queue_metadata',
                                   frames := Some frames',
                                   stacks := Some stacks',
                                   samples := Some samples' \<rparr>))))"

section \<open>The profiling integration (class HermesProfiling)\<close>

subsection \<open>JavaScript values read with optional chaining, typeof and truthiness\<close>

datatype jsval =
    JUndefined
  | JNull
  | JBool bool
  | JNumber int
  | JString string
  | JObject "(string \<times> jsval) list"

text \<open>\<open>v?.[k]\<close>: \<open>undefined\<close> when \<open>v\<close> is \<open>undefined\<close> or \<open>null\<close>, or has no such
  property.\<close>

fun get_prop :: "jsval \<Rightarrow> string \<Rightarrow> jsval" where
  "get_prop (JObject kvs) k = (case map_of kvs k of None \<Rightarrow> JUndefined | Some v \<Rightarrow> v)"
| "get_prop _ k = JUndefined"

fun truthy :: "jsval \<Rightarrow> bool" where
  "truthy JUndefined = False"
| "truthy JNull = False"
| "truthy (JBool b) = b"
| "truthy (JNumber n) = (n \<noteq> 0)"
| "truthy (JString s) = (s \<noteq> [])"
| "truthy (JObject kvs) = True"

text \<open>\<open>delete o[k]\<close> on the properties of an object.\<close>

definition delete_prop :: "string \<Rightarrow> (string \<times> jsval) list \<Rightarrow> (string \<times> jsval) list" where
  "delete_prop k kvs = filter (\<lambda>kv. fst kv \<noteq> k) kvs"

subsection \<open>Logger\<close>

datatype log_level = LOG | WARN | ERROR

type_synonym log_entry = "log_level \<times> string list"

subsection \<open>PROFILE\_QUEUE\<close>

text \<open>
  Modelled from the spec: \<open>PROFILE_QUEUE\<close> is imported from \<open>./cache\<close>, which is not among
  the source files. The spec describes it as a store "identifier \<rightarrow> Combined Profile Event,
  with a capacity bound; insertion evicts the oldest entry when full (FIFO discipline)",
  an entry being "removed (and returned) when a transaction report requests it".
  The entries are kept oldest first.
\<close>

type_synonym 'p profile_queue = "(string \<times> 'p) list"

definition queue_size :: "'p profile_queue \<Rightarrow> nat" where
  "queue_size q = length q"

definition queue_get :: "string \<Rightarrow> 'p profile_queue \<Rightarrow> 'p option" where
  "queue_get k q = map_of q k"

definition queue_delete :: "string \<Rightarrow> 'p profile_queue \<Rightarrow> 'p profile_queue" where
  "queue_delete k q = filter (\<lambda>kv. fst kv \<noteq> k) q"

definition queue_add :: "nat \<Rightarrow> string \<Rightarrow> 'p \<Rightarrow> 'p profile_queue \<Rightarrow> 'p profile_queue" where
  "queue_add capacity k v q =
     (let q1 = (if capacity \<le> length q then tl q else q)
      in queue_delete k q1 @ [(k, v)])"

subsection \<open>State of the integration\<close>

record CurrentProfile =
  profile_id :: string
  startTimestampNs :: int

text \<open>
  The fields of the class (\<open>_currentProfile\<close>, \<open>_currentProfileTimeout\<close>), the module-level
  \<open>PROFILE_QUEUE\<close> with its capacity, and what the code reaches through the environment:
  \<^item> \<open>profilesSampleRate\<close>: the value of \<open>options._experiments.profilesSampleRate\<close> reached
    through \<open>this._getCurrentHub().getClient().getOptions()\<close>; \<open>None\<close> when a link of
    that chain is missing or the value is not a number;
  \<^item> \<open>pendingTimeouts\<close>: the handles of the \<open>setTimeout(this._finishCurrentProfile, ...)\<close>
    timers that are set and not cleared;
  \<^item> \<open>uuid_calls\<close>: how many times \<open>uuid4()\<close> has been called; the generator itself is
    the parameter \<open>uuid4\<close> of the functions below, \<open>uuid4 n\<close> being the result of call
    number \<open>n\<close>;
  \<^item> \<open>logged\<close>: the calls of \<open>logger\<close>, oldest first.
\<close>

record 'p HermesProfiling =
  currentProfile :: "CurrentProfile option"
  currentProfileTimeout :: "nat option"
  pendingTimeouts :: "nat list"
  profilesSampleRate :: "rat option"
  PROFILE_QUEUE :: "'p profile_queue"
  queue_capacity :: nat
  uuid_calls :: nat
  logged :: "log_entry list"

text \<open>What one call of \<open>_startCurrentProfile\<close> or \<open>_finishCurrentProfile\<close> reads from outside
  the class: the result of \<open>stopProfiling(startTimestampNs)\<close> (which crosses the native
  bridge), \<open>Math.random()\<close>, \<open>NATIVE.startProfiling()\<close>, \<open>Date.now()\<close> and the handle
  that \<open>setTimeout\<close> returns.\<close>

record 'p profiling_env =
  stopProfiling :: "int \<Rightarrow> 'p option"
  Math_random :: rat
  NATIVE_startProfiling :: bool
  Date_now :: int
  setTimeout_handle :: nat

record ProfiledSpan =
  isCurrentlyActiveSpan :: bool
  spanIsSampled :: bool
  span_attributes :: "string \<rightharpoonup> string"

definition logger :: "log_level \<Rightarrow> string list \<Rightarrow> 'p HermesProfiling \<Rightarrow> 'p HermesProfiling" where
  "logger lvl msg st = st\<lparr>logged := logged st @ [(lvl, msg)]\<rparr>"

definition clearCurrentProfileTimeout :: "'p HermesProfiling \<Rightarrow> 'p HermesProfiling" where
  "clearCurrentProfileTimeout st =
     (case currentProfileTimeout st of
        None \<Rightarrow> st\<lparr>currentProfileTimeout := None\<rparr>
      | Some h \<Rightarrow> st\<lparr>pendingTimeouts := removeAll h (pendingTimeouts st),
                      currentProfileTimeout := None\<rparr>)"

definition finishCurrentProfile :: "'p profiling_env \<Rightarrow> 'p HermesProfiling \<Rightarrow> 'p HermesProfiling" where
  "finishCurrentProfile env st0 =
     (let st = clearCurrentProfileTimeout st0
      in case currentProfile st of
           None \<Rightarrow> st
         | Some cp \<Rightarrow>
             (case stopProfiling env (startTimestampNs cp) of
                None \<Rightarrow>
                  (logger WARN [''[Profiling] Stop failed. Cleaning up...''] st)
                    \<lparr>currentProfile := None\<rparr>
              | Some profile \<Rightarrow>
                  (logger LOG [''[Profiling] finished profiling: '', profile_id cp]
                     (st\<lparr>PROFILE_QUEUE :=
                           queue_add (queue_capacity st) (profile_id cp) profile (PROFILE_QUEUE st)\<rparr>))
                    \<lparr>currentProfile := None\<rparr>))"

definition shouldStartProfiling ::
  "'p profiling_env \<Rightarrow> ProfiledSpan \<Rightarrow> 'p HermesProfiling \<Rightarrow> bool \<times> 'p HermesProfiling" where
  "shouldStartProfiling env activeSpan st =
     (if \<not> spanIsSampled activeSpan then
        (False, logger LOG [''[Profiling] Transaction is not sampled, skipping profiling''] st)
      else case profilesSampleRate st of
             None \<Rightarrow>
               (False, logger LOG [''[Profiling] Profiling disabled, enable it by setting `profilesSampleRate` option to SDK init call.''] st)
           | Some rate \<Rightarrow>
               if Math_random env > rate then
                 (False, logger LOG [''[Profiling] Skip profiling transaction due to sampling.''] st)
               else (True, st))"

text \<open>\<open>startProfiling()\<close>: \<open>null\<close> when the native profiler did not start.\<close>

definition startProfiling :: "'p profiling_env \<Rightarrow> int option" where
  "startProfiling env =
     (if \<not> NATIVE_startProfiling env then None else Some (Date_now env * 1000000))"

definition startNewProfile ::
  "(nat \<Rightarrow> string) \<Rightarrow> 'p profiling_env \<Rightarrow> ProfiledSpan \<Rightarrow> 'p HermesProfiling
     \<Rightarrow> ProfiledSpan \<times> 'p HermesProfiling" where
  "startNewProfile uuid4 env activeSpan st =
     (case startProfiling env of
        None \<Rightarrow> (activeSpan, st)
      | Some profileStartTimestampNs \<Rightarrow>
          if profileStartTimestampNs = 0 then (activeSpan, st)
          else
            (let new_id = uuid4 (uuid_calls st);
                 st1 = st\<lparr>uuid_calls := Suc (uuid_calls st),
                          currentProfile := Some \<lparr>profile_id = new_id,
                                                   startTimestampNs = profileStartTimestampNs\<rparr>\<rparr>
             in (activeSpan\<lparr>span_attributes := (span_attributes activeSpan)(''profile_id'' \<mapsto> new_id)\<rparr>,
                 logger LOG [''[Profiling] started profiling: '', new_id] st1)))"

definition startCurrentProfile ::
  "(nat \<Rightarrow> string) \<Rightarrow> 'p profiling_env \<Rightarrow> ProfiledSpan \<Rightarrow> 'p HermesProfiling
     \<Rightarrow> ProfiledSpan \<times> 'p HermesProfiling" where
  "startCurrentProfile uuid4 env activeSpan st0 =
     (let st = finishCurrentProfile env st0
      in if \<not> isCurrentlyActiveSpan activeSpan then (activeSpan, st)
         else
           (case shouldStartProfiling env activeSpan st of
              (False, st1) \<Rightarrow> (activeSpan, st1)
            | (True, st1) \<Rightarrow>
                startNewProfile uuid4 env activeSpan
                  (st1\<lparr>currentProfileTimeout := Some (setTimeout_handle env),
                       pendingTimeouts := pendingTimeouts st1 @ [setTimeout_handle env]\<rparr>)))"

text \<open>
  The identifier of the active session, if there is one, is the result of an earlier call
  of \<open>uuid4\<close>. It holds in the initial state and every operation keeps it.
\<close>

definition session_id_issued :: "(nat \<Rightarrow> string) \<Rightarrow> 'p HermesProfiling \<Rightarrow> bool" where
  "session_id_issued uuid4 st =
     (case currentProfile st of
        None \<Rightarrow> True
      | Some cp \<Rightarrow> profile_id cp \<in> uuid4 ` {..< uuid_calls st})"

subsection \<open>Matching a queued profile to a transaction event\<close>

record Event =
  event_id :: "string option"
  contexts :: "(string \<times> jsval) list option"

definition contexts_value :: "Event \<Rightarrow> jsval" where
  "contexts_value ev = (case contexts ev of None \<Rightarrow> JUndefined | Some kvs \<Rightarrow> JObject kvs)"

text \<open>A template literal prints an undefined \<open>event_id\<close> as \<open>undefined\<close>.\<close>

definition event_id_text :: "Event \<Rightarrow> string" where
  "event_id_text ev = (case event_id ev of None \<Rightarrow> ''undefined'' | Some i \<Rightarrow> i)"

text \<open>
  \<open>_createProfileEventFor(profiledTransaction)\<close>. The event is mutated in place, so the
  model returns it with the result. \<open>enrichCombinedProfileWithEventContext\<close> (from
  \<open>./utils\<close>, not among the source files) is the parameter \<open>enrich\<close>; it may return \<open>null\<close>.
  The guard before the \<open>delete\<close> reads the key \<open>'.profile'\<close>, as the source does.
\<close>

definition createProfileEventFor ::
  "(string \<Rightarrow> 'p \<Rightarrow> Event \<Rightarrow> 'e option) \<Rightarrow> Event \<Rightarrow> 'p HermesProfiling
     \<Rightarrow> 'e option \<times> Event \<times> 'p HermesProfiling" where
  "createProfileEventFor enrich profiledTransaction st =
     (case get_prop (get_prop (contexts_value profiledTransaction) ''profile'') ''profile_id'' of
        JString pid \<Rightarrow>
          (let ev = (if truthy (get_prop (contexts_value profiledTransaction) ''.profile'')
                     then profiledTransaction
                            \<lparr>contexts := map_option (delete_prop ''profile'') (contexts profiledTransaction)\<rparr>
                     else profiledTransaction);
               profile = queue_get pid (PROFILE_QUEUE st);
               st1 = st\<lparr>PROFILE_QUEUE := queue_delete pid (PROFILE_QUEUE st)\<rparr>
           in case profile of
                None \<Rightarrow>
                  (None, ev,
                   logger LOG [''[Profiling] cannot find profile '' @ pid @ '' for transaction ''
                                 @ event_id_text ev] st1)
              | Some p \<Rightarrow>
                  (let profileWithEvent = enrich pid p ev
                   in (profileWithEvent, ev,
                       logger LOG [''[Profiling] Created profile '' @ pid @ '' for transaction ''
                                     @ event_id_text ev] st1)))
      | _ \<Rightarrow>
          (None, profiledTransaction,
           logger LOG [''[Profiling] cannot find profile for a transaction without a profile context''] st))"


section \<open>The tracing integration (class ReactNativeTracing)\<close>

subsection \<open>Spans and idle transactions\<close>

text \<open>
  Timestamps and durations are JavaScript numbers; they are modelled as rationals
  (\<open>NaN\<close> and infinities are left out). The classes \<open>Span\<close> and \<open>IdleTransaction\<close> belong to
  the SDK core (\<open>@sentry/core\<close>), outside this repository; the records hold the fields this
  repository's code reads and writes. A transaction extends a span. The span recorder of a
  transaction lists its spans, the transaction's own span included (which is why the
  source filters on \<open>span.spanId !== transaction.spanId\<close>).
\<close>

record Span =
  spanId :: string
  op :: "string option"
  description :: "string option"
  startTimestamp :: rat
  endTimestamp :: "rat option"

text \<open>The closures passed to \<open>registerBeforeFinishCallback\<close>, in the order they appear in
  the source: two in \<open>startUserInteractionTransaction\<close>, four in \<open>_createRouteTransaction\<close>
  (the third captures \<open>finalTimeoutMs\<close>).\<close>

datatype callback =
    InteractionFinished
  | OnlySampleIfChildSpans
  | RouteTransactionFinished
  | AppStartData
  | AdjustTransactionDuration rat
  | IgnoreEmptyBackNavigation

record IdleTransaction = Span +
  tx_name :: string
  sampled :: "bool option"
  tx_status :: "string option"
  tx_ended :: bool
  trimEnd :: bool
  tx_data :: jsval
  spanRecorder :: "Span list option"
  measurements :: "string \<rightharpoonup> rat \<times> string"
  beforeFinishCallbacks :: "callback list"
  idleTimeout :: rat
  finalTimeout :: rat
  idleTimeoutCancelled :: bool
  restartOnChildSpanChange :: bool
  cancelInBackground :: bool

record TransactionContext =
  ctx_name :: string
  ctx_op :: "string option"
  ctx_data :: jsval
  ctx_trimEnd :: bool

record NativeAppStartResponse =
  isColdStart :: bool
  appStartTime :: rat
  didFetchAppStart :: bool

record ReactNativeTracingOptions =
  idleTimeoutMs :: rat
  finalTimeoutMs :: rat
  routingInstrumentation :: bool
  ignoreEmptyBackNavigationTransactions :: bool
  enableAppStartTracking :: bool
  enableUserInteractionTracing :: bool

text \<open>
  Transactions are objects shared between the integration, the scope and their own
  timers, so the state keeps them in a store keyed by span id, and
  \<open>_inflightInteractionTransaction\<close> and the scope's active transaction are references into
  it. \<open>getCurrentHub_set\<close> says whether \<open>this._getCurrentHub\<close> is defined.
  \<open>instrumentation_calls\<close> records the calls forwarded to the native-frames and
  stall-tracking instrumentations (classes outside the source files), oldest first.
\<close>

record ReactNativeTracing =
  options :: ReactNativeTracingOptions
  transactions :: "string \<rightharpoonup> IdleTransaction"
  inflightInteractionTransaction :: "string option"
  scopeTransaction :: "string option"
  getCurrentHub_set :: bool
  awaitingAppStartData :: "NativeAppStartResponse option"
  appStartFinishTimestamp :: "rat option"
  currentRoute :: "string option"
  currentViewName :: "string option"
  instrumentation_calls :: "(string \<times> string) list"
  tracing_logged :: "log_entry list"

text \<open>The constants imported from \<open>../measurements\<close> and \<open>./ops\<close>, which are not among the
  source files: they are parameters of the model.\<close>

record tracing_constants =
  APP_START_COLD :: string
  APP_START_WARM :: string
  APP_START_COLD_OP :: string
  APP_START_WARM_OP :: string
  UI_LOAD :: string

text \<open>
  What the code reads from outside the class: the span id and start timestamp the SDK
  gives a new span or transaction, the sampling decision of a new transaction,
  \<open>isNearToNow\<close> and the helpers \<open>setSpanDurationAsMeasurement\<close>, \<open>onlySampleIfChildSpans\<close>
  and \<open>adjustTransactionDuration\<close> (from \<open>./utils\<close> and \<open>./transaction\<close>, not among the
  source files), which act on the transaction they are given.
\<close>

record tracing_env =
  new_span_id :: string
  timestamp_now :: rat
  sampling_decision :: "bool option"
  isNearToNow :: "rat \<Rightarrow> bool"
  setSpanDurationAsMeasurement :: "string \<Rightarrow> Span \<Rightarrow> IdleTransaction \<Rightarrow> IdleTransaction"
  onlySampleIfChildSpans :: "IdleTransaction \<Rightarrow> IdleTransaction"
  adjustTransactionDuration :: "rat \<Rightarrow> IdleTransaction \<Rightarrow> rat option \<Rightarrow> IdleTransaction"

definition tracing_logger :: "log_level \<Rightarrow> string list \<Rightarrow> ReactNativeTracing \<Rightarrow> ReactNativeTracing" where
  "tracing_logger lvl msg st = st\<lparr>tracing_logged := tracing_logged st @ [(lvl, msg)]\<rparr>"

subsection \<open>SDK operations on a transaction\<close>

text \<open>\<open>transaction.setMeasurement(name, value, unit)\<close>.\<close>

definition setMeasurement :: "string \<Rightarrow> rat \<Rightarrow> string \<Rightarrow> IdleTransaction \<Rightarrow> IdleTransaction" where
  "setMeasurement n v unit tx = tx\<lparr>measurements := (measurements tx)(n \<mapsto> (v, unit))\<rparr>"

text \<open>\<open>transaction.startChild(ctx)\<close>: the child is added to the span recorder when the
  transaction has one.\<close>

definition startChild :: "Span \<Rightarrow> IdleTransaction \<Rightarrow> IdleTransaction" where
  "startChild child tx = tx\<lparr>spanRecorder := map_option (\<lambda>spans. spans @ [child]) (spanRecorder tx)\<rparr>"

text \<open>\<open>spans.find(p)\<close> followed by a write to the span found: the first span that
  satisfies \<open>p\<close> is updated in place.\<close>

fun update_first :: "('a \<Rightarrow> bool) \<Rightarrow> ('a \<Rightarrow> 'a) \<Rightarrow> 'a list \<Rightarrow> 'a list" where
  "update_first p f [] = []"
| "update_first p f (x # xs) = (if p x then f x # xs else x # update_first p f xs)"

subsection \<open>App start\<close>

definition maxAppStart :: rat where
  "maxAppStart = 60000"

text \<open>\<open>_getAppStartDurationMilliseconds\<close>: \<open>undefined\<close> when \<open>_appStartFinishTimestamp\<close> is
  falsy (undefined or 0).\<close>

definition getAppStartDurationMilliseconds ::
  "ReactNativeTracing \<Rightarrow> NativeAppStartResponse \<Rightarrow> rat option" where
  "getAppStartDurationMilliseconds st appStart =
     (case appStartFinishTimestamp st of
        None \<Rightarrow> None
      | Some finish \<Rightarrow>
          if finish = 0 then None else Some (finish * 1000 - appStartTime appStart))"

text \<open>The two blocks that look for the time-to-display span of operation \<open>span_op\<close>, move
  its start to the app start and record its duration as the measurement \<open>m\<close>.\<close>

definition moveDisplaySpan ::
  "tracing_env \<Rightarrow> string \<Rightarrow> string \<Rightarrow> rat \<Rightarrow> IdleTransaction \<Rightarrow> IdleTransaction" where
  "moveDisplaySpan env span_op m appStartTimeSeconds tx =
     (case spanRecorder tx of
        None \<Rightarrow> tx
      | Some spans \<Rightarrow>
          (case List.find (\<lambda>s. op s = Some span_op) spans of
             None \<Rightarrow> tx
           | Some maybeSpan \<Rightarrow>
               setSpanDurationAsMeasurement env m
                 (maybeSpan\<lparr>startTimestamp := appStartTimeSeconds\<rparr>)
                 (tx\<lparr>spanRecorder :=
                       Some (update_first (\<lambda>s. op s = Some span_op)
                               (\<lambda>s. s\<lparr>startTimestamp := appStartTimeSeconds\<rparr>) spans)\<rparr>)))"

text \<open>\<open>_addAppStartData(transaction, appStart)\<close>. \<open>!appStartDurationMilliseconds\<close> holds for
  \<open>undefined\<close> and for \<open>0\<close>.\<close>

definition addAppStartData ::
  "tracing_constants \<Rightarrow> tracing_env \<Rightarrow> IdleTransaction \<Rightarrow> NativeAppStartResponse
     \<Rightarrow> ReactNativeTracing \<Rightarrow> IdleTransaction \<times> ReactNativeTracing" where
  "addAppStartData c env transaction appStart st =
     (case getAppStartDurationMilliseconds st appStart of
        None \<Rightarrow> (transaction, tracing_logger WARN [''App start was never finished.''] st)
      | Some appStartDurationMilliseconds \<Rightarrow>
          if appStartDurationMilliseconds = 0 then
            (transaction, tracing_logger WARN [''App start was never finished.''] st)
          else if appStartDurationMilliseconds \<ge> maxAppStart then (transaction, st)
          else
            (let appStartTimeSeconds = appStartTime appStart / 1000;
                 tx1 = transaction\<lparr>startTimestamp := appStartTimeSeconds\<rparr>;
                 tx2 = moveDisplaySpan env ''ui.load.initial_display'' ''time_to_initial_display''
                         appStartTimeSeconds tx1;
                 tx3 = moveDisplaySpan env ''ui.load.full_display'' ''time_to_full_display''
                         appStartTimeSeconds tx2;
                 op' = (if isColdStart appStart then APP_START_COLD_OP c else APP_START_WARM_OP c);
                 tx4 = startChild
                         \<lparr> spanId = new_span_id env,
                           op = Some op',
                           description = Some (if isColdStart appStart then ''Cold App Start''
                                               else ''Warm App Start''),
                           startTimestamp = appStartTimeSeconds,
                           endTimestamp = appStartFinishTimestamp st \<rparr> tx3;
                 measurement = (if isColdStart appStart then APP_START_COLD c else APP_START_WARM c)
             in (setMeasurement measurement appStartDurationMilliseconds ''millisecond'' tx4, st)))"

subsection \<open>Before-finish callbacks\<close>

text \<open>\<open>onTransactionStart\<close> and \<open>onTransactionFinish\<close> forward to the instrumentations.\<close>

definition onTransactionStart :: "tracing_env \<Rightarrow> string \<Rightarrow> ReactNativeTracing \<Rightarrow> ReactNativeTracing" where
  "onTransactionStart env ref st =
     (case transactions st ref of
        None \<Rightarrow> st
      | Some transaction \<Rightarrow>
          if isNearToNow env (startTimestamp transaction)
          then st\<lparr>instrumentation_calls :=
                    instrumentation_calls st @ [(''onTransactionStart'', spanId transaction)]\<rparr>
          else st)"

definition onTransactionFinish :: "IdleTransaction \<Rightarrow> ReactNativeTracing \<Rightarrow> ReactNativeTracing" where
  "onTransactionFinish transaction st =
     st\<lparr>instrumentation_calls :=
          instrumentation_calls st @ [(''onTransactionFinish'', spanId transaction)]\<rparr>"

text \<open>The predicate of the filter in the last callback of \<open>_createRouteTransaction\<close>.\<close>

definition meaningfulChild :: "IdleTransaction \<Rightarrow> Span \<Rightarrow> bool" where
  "meaningfulChild transaction s =
     (spanId s \<noteq> spanId transaction
      \<and> op s \<noteq> Some ''ui.load.initial_display''
      \<and> op s \<noteq> Some ''navigation.processing'')"

text \<open>The callback registered when \<open>ignoreEmptyBackNavigationTransactions\<close> is set.\<close>

definition ignoreEmptyBackNavigation ::
  "IdleTransaction \<Rightarrow> ReactNativeTracing \<Rightarrow> IdleTransaction \<times> ReactNativeTracing" where
  "ignoreEmptyBackNavigation transaction st =
     (if truthy (get_prop (get_prop (tx_data transaction) ''route'') ''hasBeenSeen'')
         \<and> (case spanRecorder transaction of
               None \<Rightarrow> True
             | Some spans \<Rightarrow> length (filter (meaningfulChild transaction) spans) = 0)
      then (transaction\<lparr>sampled := Some False\<rparr>,
            tracing_logger LOG [''[ReactNativeTracing] Not sampling transaction as route has been seen before. Pass ignoreEmptyBackNavigationTransactions = false to disable this feature.''] st)
      else (transaction, st))"

text \<open>One registered callback, run on \<open>transaction\<close> with the \<open>endTimestamp\<close> passed to the
  callbacks.\<close>

definition runCallback ::
  "tracing_constants \<Rightarrow> tracing_env \<Rightarrow> rat option \<Rightarrow> callback
     \<Rightarrow> IdleTransaction \<times> ReactNativeTracing \<Rightarrow> IdleTransaction \<times> ReactNativeTracing" where
  "runCallback c env endTimestamp' cb txst =
     (case txst of (transaction, st) \<Rightarrow>
        (case cb of
           InteractionFinished \<Rightarrow>
             (transaction, onTransactionFinish transaction (st\<lparr>inflightInteractionTransaction := None\<rparr>))
         | OnlySampleIfChildSpans \<Rightarrow> (onlySampleIfChildSpans env transaction, st)
         | RouteTransactionFinished \<Rightarrow> (transaction, onTransactionFinish transaction st)
         | AppStartData \<Rightarrow>
             (case awaitingAppStartData st of
                None \<Rightarrow> (transaction, st)
              | Some appStart \<Rightarrow>
                  if enableAppStartTracking (options st) then
                    (case addAppStartData c env (transaction\<lparr>op := Some (UI_LOAD c)\<rparr>) appStart st of
                       (transaction', st') \<Rightarrow> (transaction', st'\<lparr>awaitingAppStartData := None\<rparr>))
                  else (transaction, st))
         | AdjustTransactionDuration final \<Rightarrow>
             (adjustTransactionDuration env final transaction endTimestamp', st)
         | IgnoreEmptyBackNavigation \<Rightarrow> ignoreEmptyBackNavigation transaction st))"

text \<open>
  \<open>transaction.end()\<close> of the SDK: the before-finish callbacks run in registration order,
  then the transaction is finished and leaves the scope if it was the scope's
  transaction. The finished transaction is written back to the store.
\<close>

definition endTransaction ::
  "tracing_constants \<Rightarrow> tracing_env \<Rightarrow> string \<Rightarrow> ReactNativeTracing \<Rightarrow> ReactNativeTracing" where
  "endTransaction c env ref st =
     (case transactions st ref of
        None \<Rightarrow> st
      | Some transaction \<Rightarrow>
          (case foldl (\<lambda>txst cb. runCallback c env None cb txst) (transaction, st)
                  (beforeFinishCallbacks transaction) of
             (transaction', st') \<Rightarrow>
               st'\<lparr>transactions := (transactions st')(ref \<mapsto> transaction'\<lparr>tx_ended := True\<rparr>),
                   scopeTransaction := (if scopeTransaction st' = Some ref then None
                                        else scopeTransaction st')\<rparr>))"

subsection \<open>Starting transactions\<close>

text \<open>
  \<open>_startIdleTransaction(context)\<close>: \<open>startIdleTransaction(hub, context, idleTimeoutMs,
  finalTimeoutMs, true)\<close> of the SDK creates the transaction and puts it on the scope;
  \<open>cancelInBackground\<close> (from \<open>./transaction\<close>) arms the cancellation on backgrounding.
  The new transaction is stored under its span id, which is returned as the reference.
\<close>

definition startIdleTransaction ::
  "tracing_env \<Rightarrow> TransactionContext \<Rightarrow> ReactNativeTracing \<Rightarrow> string \<times> ReactNativeTracing" where
  "startIdleTransaction env context st =
     (let tx = \<lparr> spanId = new_span_id env,
                 op = ctx_op context,
                 description = Some (ctx_name context),
                 startTimestamp = timestamp_now env,
                 endTimestamp = None,
                 tx_name = ctx_name context,
                 sampled = sampling_decision env,
                 tx_status = None,
                 tx_ended = False,
                 trimEnd = ctx_trimEnd context,
                 tx_data = ctx_data context,
                 spanRecorder = Some [\<lparr> spanId = new_span_id env,
                                         op = ctx_op context,
                                         description = Some (ctx_name context),
                                         startTimestamp = timestamp_now env,
                                         endTimestamp = None \<rparr>],
                 measurements = Map.empty,
                 beforeFinishCallbacks = [],
                 idleTimeout = idleTimeoutMs (options st),
                 finalTimeout = finalTimeoutMs (options st),
                 idleTimeoutCancelled = False,
                 restartOnChildSpanChange = True,
                 cancelInBackground = True \<rparr>
      in (new_span_id env,
          st\<lparr>transactions := (transactions st)(new_span_id env \<mapsto> tx),
             scopeTransaction := Some (new_span_id env)\<rparr>))"

definition registerBeforeFinishCallback :: "string \<Rightarrow> callback \<Rightarrow> ReactNativeTracing \<Rightarrow> ReactNativeTracing" where
  "registerBeforeFinishCallback ref cb st =
     (case transactions st ref of
        None \<Rightarrow> st
      | Some tx \<Rightarrow>
          st\<lparr>transactions :=
               (transactions st)(ref \<mapsto> tx\<lparr>beforeFinishCallbacks := beforeFinishCallbacks tx @ [cb]\<rparr>)\<rparr>)"

text \<open>The callbacks registered on the transaction behind a reference.\<close>

definition registeredCallbacks :: "ReactNativeTracing \<Rightarrow> string \<Rightarrow> callback list option" where
  "registeredCallbacks st ref = map_option beforeFinishCallbacks (transactions st ref)"

text \<open>The scope's active transaction, \<open>getActiveTransaction(hub)\<close>, as an object, and the
  in-flight interaction transaction with its reference.\<close>

definition activeTransaction :: "ReactNativeTracing \<Rightarrow> IdleTransaction option" where
  "activeTransaction st = (case scopeTransaction st of None \<Rightarrow> None | Some r \<Rightarrow> transactions st r)"

definition inflightTransaction :: "ReactNativeTracing \<Rightarrow> (string \<times> IdleTransaction) option" where
  "inflightTransaction st =
     (case inflightInteractionTransaction st of
        None \<Rightarrow> None
      | Some r \<Rightarrow> map_option (\<lambda>tx. (r, tx)) (transactions st r))"

text \<open>\<open>!s\<close> for an optional string: undefined or empty.\<close>

definition falsy_string :: "string option \<Rightarrow> bool" where
  "falsy_string s = (case s of None \<Rightarrow> True | Some t \<Rightarrow> t = [])"

definition text_of :: "string option \<Rightarrow> string" where
  "text_of s = (case s of None \<Rightarrow> ''undefined'' | Some t \<Rightarrow> t)"

text \<open>\<open>transaction.cancelIdleTimeout(undefined, { restartOnChildSpanChange: false })\<close>
  and \<open>transaction.setStatus(status)\<close> of the SDK, on the object behind a reference.\<close>

definition cancelIdleTimeout :: "string \<Rightarrow> ReactNativeTracing \<Rightarrow> ReactNativeTracing" where
  "cancelIdleTimeout ref st =
     (case transactions st ref of
        None \<Rightarrow> st
      | Some tx \<Rightarrow>
          st\<lparr>transactions :=
               (transactions st)(ref \<mapsto> tx\<lparr>idleTimeoutCancelled := True,
                                              restartOnChildSpanChange := False\<rparr>)\<rparr>)"

definition setStatus :: "string \<Rightarrow> string \<Rightarrow> ReactNativeTracing \<Rightarrow> ReactNativeTracing" where
  "setStatus ref status st =
     (case transactions st ref of
        None \<Rightarrow> st
      | Some tx \<Rightarrow> st\<lparr>transactions := (transactions st)(ref \<mapsto> tx\<lparr>tx_status := Some status\<rparr>)\<rparr>)"

text \<open>
  \<open>startUserInteractionTransaction({ elementId, op })\<close>; the result is the reference of
  the transaction returned, \<open>None\<close> for \<open>undefined\<close>. A reference counts as defined when
  the store has an object for it.
\<close>

definition startUserInteractionTransaction ::
  "tracing_env \<Rightarrow> string option \<Rightarrow> string \<Rightarrow> ReactNativeTracing
     \<Rightarrow> string option \<times> ReactNativeTracing" where
  "startUserInteractionTransaction env elementId op' st =
     (if \<not> enableUserInteractionTracing (options st) then
        (None, tracing_logger LOG [''[ReactNativeTracing] User Interaction Tracing is disabled.''] st)
      else if \<not> routingInstrumentation (options st) then
        (None, tracing_logger ERROR [''[ReactNativeTracing] User Interaction Tracing is not working because no routing instrumentation is set.''] st)
      else if falsy_string elementId then
        (None, tracing_logger LOG [''[ReactNativeTracing] User Interaction Tracing can not create transaction with undefined elementId.''] st)
      else if falsy_string (currentRoute st) then
        (None, tracing_logger LOG [''[ReactNativeTracing] User Interaction Tracing can not create transaction without a current route.''] st)
      else
        (let activeTransactionIsNotInteraction =
               (case activeTransaction st of
                  None \<Rightarrow> True
                | Some active \<Rightarrow>
                    (case inflightTransaction st of
                       None \<Rightarrow> True
                     | Some (r, inflight) \<Rightarrow> spanId active \<noteq> spanId inflight))
         in case (activeTransaction st, activeTransactionIsNotInteraction) of
              (Some active, True) \<Rightarrow>
                (None, tracing_logger WARN
                   [''[ReactNativeTracing] Did not create '' @ op' @ '' transaction because active transaction ''
                      @ text_of (description active) @ '' exists on the scope.''] st)
            | _ \<Rightarrow>
                (let st1 = (case inflightTransaction st of
                              None \<Rightarrow> st
                            | Some (r, inflight) \<Rightarrow>
                                (cancelIdleTimeout r st)\<lparr>inflightInteractionTransaction := None\<rparr>);
                     name' = text_of (currentRoute st) @ ''.'' @ text_of elementId;
                     context = \<lparr> ctx_name = name', ctx_op = Some op', ctx_data = JUndefined,
                                 ctx_trimEnd = True \<rparr>;
                     (ref, st2) = startIdleTransaction env context st1;
                     st3 = st2\<lparr>inflightInteractionTransaction := Some ref\<rparr>;
                     st4 = registerBeforeFinishCallback ref InteractionFinished st3;
                     st5 = registerBeforeFinishCallback ref OnlySampleIfChildSpans st4;
                     st6 = onTransactionStart env ref st5
                 in (Some ref,
                     tracing_logger LOG
                       [''[ReactNativeTracing] User Interaction Tracing Created '' @ op'
                          @ '' transaction '' @ name' @ ''.''] st6))))"

text \<open>\<open>_createRouteTransaction(context)\<close>.\<close>

definition createRouteTransaction ::
  "tracing_constants \<Rightarrow> tracing_env \<Rightarrow> TransactionContext \<Rightarrow> ReactNativeTracing
     \<Rightarrow> string option \<times> ReactNativeTracing" where
  "createRouteTransaction c env context st =
     (if \<not> getCurrentHub_set st then
        (None, tracing_logger WARN
           [''[ReactNativeTracing] Did not create '' @ text_of (ctx_op context)
              @ '' transaction because _getCurrentHub is invalid.''] st)
      else
        (let st1 = (case inflightTransaction st of
                      None \<Rightarrow> st
                    | Some (r, inflight) \<Rightarrow>
                        (let sa = tracing_logger LOG
                                    [''[ReactNativeTracing] Canceling '' @ text_of (op inflight)
                                       @ '' transaction because navigation ''
                                       @ text_of (ctx_op context) @ ''.''] st;
                             sb = setStatus r ''cancelled'' sa
                         in endTransaction c env r sb));
             final = finalTimeoutMs (options st1);
             expandedContext = context\<lparr>ctx_trimEnd := True\<rparr>;
             (ref, st2) = startIdleTransaction env expandedContext st1;
             st3 = onTransactionStart env ref st2;
             st4 = tracing_logger LOG
                     [''[ReactNativeTracing] Starting '' @ text_of (ctx_op context)
                        @ '' transaction \"'' @ ctx_name context @ ''\" on scope''] st3;
             st5 = registerBeforeFinishCallback ref RouteTransactionFinished st4;
             st6 = registerBeforeFinishCallback ref AppStartData st5;
             st7 = registerBeforeFinishCallback ref (AdjustTransactionDuration final) st6;
             st8 = (if ignoreEmptyBackNavigationTransactions (options st7)
                    then registerBeforeFinishCallback ref IgnoreEmptyBackNavigation st7
                    else st7)
         in (Some ref, st8)))"

text \<open>\<open>_onConfirmRoute\<close> and \<open>onAppStartFinish\<close>.\<close>

definition onConfirmRoute :: "string option \<Rightarrow> ReactNativeTracing \<Rightarrow> ReactNativeTracing" where
  "onConfirmRoute currentViewName' st =
     st\<lparr>currentViewName := currentViewName', currentRoute := currentViewName'\<rparr>"

definition onAppStartFinish :: "rat \<Rightarrow> ReactNativeTracing \<Rightarrow> ReactNativeTracing" where
  "onAppStartFinish endTimestamp' st = st\<lparr>appStartFinishTimestamp := Some endTimestamp'\<rparr>"

section \<open>The fallback frame event emitter (utils/sentryeventemitterfallback.ts)\<close>

text \<open>
  \<open>createSentryFallbackEventEmitter\<close> closes over two flags; its work is spread over
  promise continuations, animation-frame callbacks, timers and event listeners, which the
  single-threaded event loop runs one at a time. The model is a state with the two flags,
  what is pending (native calls not yet resolved, animation-frame callbacks, timers with
  their due time in milliseconds) and what \<open>DeviceEventEmitter\<close> has delivered, and a step
  function over the things that can happen next.
\<close>

record FallBackNewFrameEvent =
  newFrameTimestampInSeconds :: rat
  isFallback :: "bool option"

text \<open>The variables a \<open>checkNativeResponse\<close> closure captures.\<close>

record pending_check =
  fallbackSeconds :: rat
  origin :: string
  firstAttemptCompleted :: bool

record FallbackEmitter =
  NativeEmitterCalled :: bool
  isListening :: bool
  listeners :: nat
  pendingNativeCalls :: nat
  pendingAnimationFrames :: nat
  clock_ms :: nat
  timers :: "(nat \<times> pending_check) list"
  delivered :: "FallBackNewFrameEvent list"
  emitter_logged :: "log_entry list"

text \<open>\<open>DeviceEventEmitter.emit(NewFrameEventName, ev)\<close>: the event is delivered, and the
  listener added by \<open>initAsync\<close> (if any) sets \<open>NativeEmitterCalled\<close> while listening.\<close>

definition emit_NewFrameEvent :: "FallBackNewFrameEvent \<Rightarrow> FallbackEmitter \<Rightarrow> FallbackEmitter" where
  "emit_NewFrameEvent ev st =
     (let st1 = st\<lparr>delivered := delivered st @ [ev]\<rparr>
      in if 0 < listeners st1 \<and> isListening st1 then st1\<lparr>NativeEmitterCalled := True\<rparr> else st1)"

definition checkNativeResponse :: "pending_check \<Rightarrow> FallbackEmitter \<Rightarrow> FallbackEmitter" where
  "checkNativeResponse cl st =
     (if NativeEmitterCalled st then
        st\<lparr>NativeEmitterCalled := False, isListening := False\<rparr>
      else if \<not> firstAttemptCompleted cl then
        st\<lparr>timers := timers st @ [(clock_ms st + 3000, cl\<lparr>firstAttemptCompleted := True\<rparr>)]\<rparr>
      else
        emit_NewFrameEvent
          \<lparr> newFrameTimestampInSeconds = fallbackSeconds cl, isFallback = Some True \<rparr>
          (st\<lparr>emitter_logged := emitter_logged st @
                  [(LOG, [''[Sentry] Native event emitter did not reply in time. Using ''
                            @ origin cl @ '' fallback emitter.''])],
              isListening := False\<rparr>))"

definition waitForNativeResponseOrFallback :: "rat \<Rightarrow> string \<Rightarrow> FallbackEmitter \<Rightarrow> FallbackEmitter" where
  "waitForNativeResponseOrFallback fallbackSeconds' origin' st =
     checkNativeResponse
       \<lparr> fallbackSeconds = fallbackSeconds', origin = origin', firstAttemptCompleted = False \<rparr> st"

text \<open>\<open>defaultFallbackEventEmitter\<close> schedules a callback for the next animation frame;
  \<open>animationFrameCallback\<close> is that callback, \<open>seconds\<close> being what \<open>timestampInSeconds()\<close>
  returns when it runs.\<close>

definition defaultFallbackEventEmitter :: "FallbackEmitter \<Rightarrow> FallbackEmitter" where
  "defaultFallbackEventEmitter st = st\<lparr>pendingAnimationFrames := Suc (pendingAnimationFrames st)\<rparr>"

definition animationFrameCallback :: "rat \<Rightarrow> FallbackEmitter \<Rightarrow> FallbackEmitter" where
  "animationFrameCallback seconds st =
     (if NativeEmitterCalled st then
        st\<lparr>NativeEmitterCalled := False, isListening := False\<rparr>
      else waitForNativeResponseOrFallback seconds ''JavaScript'' st)"

definition initAsync :: "FallbackEmitter \<Rightarrow> FallbackEmitter" where
  "initAsync st = st\<lparr>listeners := Suc (listeners st)\<rparr>"

text \<open>\<open>startListenerAsync\<close> up to the pending promise, and its two continuations.\<close>

definition startListenerAsync :: "FallbackEmitter \<Rightarrow> FallbackEmitter" where
  "startListenerAsync st = st\<lparr>isListening := True, pendingNativeCalls := Suc (pendingNativeCalls st)\<rparr>"

definition nativeResolved :: "rat option \<Rightarrow> FallbackEmitter \<Rightarrow> FallbackEmitter" where
  "nativeResolved resolve st =
     (case resolve of
        None \<Rightarrow> defaultFallbackEventEmitter st
      | Some seconds \<Rightarrow>
          if seconds \<noteq> 0 then waitForNativeResponseOrFallback seconds ''Native'' st
          else defaultFallbackEventEmitter st)"

definition nativeRejected :: "FallbackEmitter \<Rightarrow> FallbackEmitter" where
  "nativeRejected st =
     defaultFallbackEventEmitter
       (st\<lparr>emitter_logged := emitter_logged st @
              [(ERROR, [''Failed to recceive Native fallback timestamp.''])]\<rparr>)"

text \<open>The timer that fires next: the earliest due one, the one set first among equals.\<close>

fun earliest :: "(nat \<times> 'a) list \<Rightarrow> (nat \<times> 'a) option" where
  "earliest [] = None"
| "earliest (t # ts) =
     (case earliest ts of
        None \<Rightarrow> Some t
      | Some u \<Rightarrow> if fst t \<le> fst u then Some t else Some u)"

text \<open>
  What can happen next. A native call resolves or is rejected only if one is pending, an
  animation frame runs a callback only if one is scheduled, and a timer fires only once
  the clock has reached its due time (\<open>Elapse\<close> moves the clock).
\<close>

datatype emitter_event =
    InitAsync
  | StartListenerAsync
  | NativeResolved "rat option"
  | NativeRejected
  | AnimationFrame rat
  | NativeNewFrame rat
  | Elapse nat
  | TimerFire

definition emitter_step :: "emitter_event \<Rightarrow> FallbackEmitter \<Rightarrow> FallbackEmitter" where
  "emitter_step e st =
     (case e of
        InitAsync \<Rightarrow> initAsync st
      | StartListenerAsync \<Rightarrow> startListenerAsync st
      | NativeResolved resolve \<Rightarrow>
          if pendingNativeCalls st = 0 then st
          else nativeResolved resolve (st\<lparr>pendingNativeCalls := pendingNativeCalls st - 1\<rparr>)
      | NativeRejected \<Rightarrow>
          if pendingNativeCalls st = 0 then st
          else nativeRejected (st\<lparr>pendingNativeCalls := pendingNativeCalls st - 1\<rparr>)
      | AnimationFrame seconds \<Rightarrow>
          if pendingAnimationFrames st = 0 then st
          else animationFrameCallback seconds
                 (st\<lparr>pendingAnimationFrames := pendingAnimationFrames st - 1\<rparr>)
      | NativeNewFrame seconds \<Rightarrow>
          emit_NewFrameEvent \<lparr> newFrameTimestampInSeconds = seconds, isFallback = None \<rparr> st
      | Elapse d \<Rightarrow> st\<lparr>clock_ms := clock_ms st + d\<rparr>
      | TimerFire \<Rightarrow>
          (case earliest (timers st) of
             None \<Rightarrow> st
           | Some (due, cl) \<Rightarrow>
               if due \<le> clock_ms st
               then checkNativeResponse cl (st\<lparr>timers := remove1 (due, cl) (timers st)\<rparr>)
               else st))"

definition emitter_run :: "emitter_event list \<Rightarrow> FallbackEmitter \<Rightarrow> FallbackEmitter" where
  "emitter_run es st = foldl (\<lambda>s e. emitter_step e s) st es"

text \<open>The state right after \<open>createSentryFallbackEventEmitter()\<close> and \<open>initAsync()\<close>.\<close>

definition emitter_initial :: FallbackEmitter where
  "emitter_initial =
     \<lparr> NativeEmitterCalled = False, isListening = False, listeners = 1,
       pendingNativeCalls = 0, pendingAnimationFrames = 0, clock_ms = 0,
       timers = [], delivered = [], emitter_logged = [] \<rparr>"

text \<open>The fallback events among the delivered ones.\<close>

definition fallbacks :: "FallbackEmitter \<Rightarrow> FallBackNewFrameEvent list" where
  "fallbacks st = filter (\<lambda>ev. isFallback ev = Some True) (delivered st)"

text \<open>A state with nothing pending from an earlier cycle: the flag is clear, no native call
  is unresolved, no animation-frame callback is scheduled and no timer is set.\<close>

definition quiescent :: "FallbackEmitter \<Rightarrow> bool" where
  "quiescent st =
     (\<not> NativeEmitterCalled st \<and> pendingNativeCalls st = 0 \<and> pendingAnimationFrames st = 0
      \<and> timers st = [])"

text \<open>What may occur during one cycle that no other cycle overlaps: native frame events,
  time passing, and the event loop looking for a due timer. \<open>frame_or_time\<close> leaves the
  last one out.\<close>

fun cycle_event :: "emitter_event \<Rightarrow> bool" where
  "cycle_event (NativeNewFrame seconds) = True"
| "cycle_event (Elapse d) = True"
| "cycle_event TimerFire = True"
| "cycle_event _ = False"

fun frame_or_time :: "emitter_event \<Rightarrow> bool" where
  "frame_or_time (NativeNewFrame seconds) = True"
| "frame_or_time (Elapse d) = True"
| "frame_or_time _ = False"

fun is_frame :: "emitter_event \<Rightarrow> bool" where
  "is_frame (NativeNewFrame seconds) = True"
| "is_frame _ = False"

text \<open>The milliseconds that pass during a list of events.\<close>

fun elapsed :: "emitter_event list \<Rightarrow> nat" where
  "elapsed [] = 0"
| "elapsed (Elapse d # es) = d + elapsed es"
| "elapsed (e # es) = elapsed es"

text \<open>Within a cycle, after the immediate check: either the cycle is settled (a
  confirming event had been received; nothing is pending and listening is off), or it is
  armed with the single timer of the closure \<open>cl\<close>, due at \<open>due\<close>.\<close>

definition settled :: "FallbackEmitter \<Rightarrow> bool" where
  "settled st =
     (\<not> NativeEmitterCalled st \<and> \<not> isListening st \<and> pendingNativeCalls st = 0
      \<and> pendingAnimationFrames st = 0 \<and> timers st = [])"

definition armed :: "nat \<Rightarrow> pending_check \<Rightarrow> FallbackEmitter \<Rightarrow> bool" where
  "armed due cl st =
     (\<not> NativeEmitterCalled st \<and> isListening st \<and> pendingNativeCalls st = 0
      \<and> pendingAnimationFrames st = 0 \<and> timers st = [(due, cl)]
      \<and> firstAttemptCompleted cl)"

section \<open>Example inputs\<close>

subsection \<open>Example profiles\<close>

definition js_frame :: "string \<Rightarrow> ThreadCpuFrame" where
  "js_frame f = \<lparr> function_name = Some f, abs_path = Some ''app.js'', lineno = Some 1,
                  colno = Some 1, instruction_addr = None, platform = None \<rparr>"

definition native_frame_ex :: "string \<Rightarrow> string \<Rightarrow> ThreadCpuFrame" where
  "native_frame_ex f a = \<lparr> function_name = Some f, abs_path = None, lineno = None,
                  colno = None, instruction_addr = Some a, platform = None \<rparr>"

definition sample_ex :: "int \<Rightarrow> string \<Rightarrow> ThreadCpuSample" where
  "sample_ex sid tid = \<lparr> stack_id = sid, thread_id = tid, queue_address = None,
                         elapsed_since_start_ns = ''100'' \<rparr>"

definition hermes_ex :: ThreadCpuProfile where
  "hermes_ex =
     \<lparr> samples = Some [sample_ex 0 ''1'', sample_ex 1 ''1''],
       stacks = Some [[0], [1, 0]],
       frames = Some [js_frame ''main'', js_frame ''render''],
       thread_metadata = Some [''1'' \<mapsto> \<lparr> name = Some ''JavaScriptThread'', priority = Some 1 \<rparr>],
       queue_metadata = None \<rparr>"

definition native_ex :: ThreadCpuProfile where
  "native_ex =
     \<lparr> samples = Some [sample_ex 0 ''1'', sample_ex 1 ''7''],
       stacks = Some [[0], [1, 0]],
       frames = Some [native_frame_ex ''start'' ''0x10'', native_frame_ex ''loop'' ''0x20''],
       thread_metadata = Some [''1'' \<mapsto> \<lparr> name = Some ''main'', priority = Some 31 \<rparr>,
                               ''7'' \<mapsto> \<lparr> name = Some ''worker'', priority = None \<rparr>],
       queue_metadata = Some [''q'' \<mapsto> \<lparr> label = ''com.apple.main-thread'' \<rparr>] \<rparr>"

subsection \<open>Example states of the profiling integration\<close>

definition uuid4_ex :: "nat \<Rightarrow> string" where
  "uuid4_ex n = ''id'' @ replicate n (CHR ''x'')"

definition profiling_state_ex :: "nat HermesProfiling" where
  "profiling_state_ex =
     \<lparr> currentProfile = Some \<lparr>profile_id = ''id'', startTimestampNs = 1000000\<rparr>,
       currentProfileTimeout = Some 3,
       pendingTimeouts = [3],
       profilesSampleRate = Some 1,
       PROFILE_QUEUE = [(''p1'', 17), (''p2'', 18)],
       queue_capacity = 20,
       uuid_calls = 1,
       logged = [] \<rparr>"

definition profiling_env_ex :: "nat profiling_env" where
  "profiling_env_ex =
     \<lparr> stopProfiling = (\<lambda>ns. Some 19),
       Math_random = 1 / 4,
       NATIVE_startProfiling = True,
       Date_now = 5,
       setTimeout_handle = 4 \<rparr>"

definition span_ex :: ProfiledSpan where
  "span_ex = \<lparr> isCurrentlyActiveSpan = True, spanIsSampled = True, span_attributes = Map.empty \<rparr>"

definition event_ex :: Event where
  "event_ex =
     \<lparr> event_id = Some ''e1'',
       contexts = Some [(''trace'', JObject [(''op'', JString ''navigation'')]),
                        (''profile'', JObject [(''profile_id'', JString ''p1'')])] \<rparr>"

definition enrich_ex :: "string \<Rightarrow> nat \<Rightarrow> Event \<Rightarrow> (string \<times> nat) option" where
  "enrich_ex pid profile ev = Some (pid, profile)"

subsection \<open>Example states of the tracing integration\<close>

definition constants_ex :: tracing_constants where
  "constants_ex =
     \<lparr> APP_START_COLD = ''app_start_cold'', APP_START_WARM = ''app_start_warm'',
       APP_START_COLD_OP = ''app.start.cold'', APP_START_WARM_OP = ''app.start.warm'',
       UI_LOAD = ''ui.load'' \<rparr>"

definition tracing_env_ex :: tracing_env where
  "tracing_env_ex =
     \<lparr> new_span_id = ''s9'',
       timestamp_now = 105,
       sampling_decision = Some True,
       isNearToNow = (\<lambda>t. True),
       setSpanDurationAsMeasurement = (\<lambda>m s tx. tx),
       onlySampleIfChildSpans = (\<lambda>tx. tx),
       adjustTransactionDuration = (\<lambda>final tx e. tx) \<rparr>"

definition child_ex :: "string \<Rightarrow> string \<Rightarrow> Span" where
  "child_ex i o' = \<lparr> spanId = i, op = Some o', description = None,
                     startTimestamp = 101, endTimestamp = Some 102 \<rparr>"

definition route_tx_ex :: "Span list \<Rightarrow> IdleTransaction" where
  "route_tx_ex children =
     \<lparr> spanId = ''t1'', op = Some ''navigation'', description = Some ''Home'',
       startTimestamp = 100, endTimestamp = None,
       tx_name = ''Home'', sampled = Some True, tx_status = None, tx_ended = False,
       trimEnd = True,
       tx_data = JObject [(''route'', JObject [(''name'', JString ''Home''),
                                                (''hasBeenSeen'', JBool True)])],
       spanRecorder = Some (child_ex ''t1'' ''navigation'' # children),
       measurements = Map.empty,
       beforeFinishCallbacks = [],
       idleTimeout = 1000, finalTimeout = 600000,
       idleTimeoutCancelled = False, restartOnChildSpanChange = True,
       cancelInBackground = True \<rparr>"

definition tracing_options_ex :: "bool \<Rightarrow> ReactNativeTracingOptions" where
  "tracing_options_ex interactions =
     \<lparr> idleTimeoutMs = 1000, finalTimeoutMs = 600000, routingInstrumentation = True,
       ignoreEmptyBackNavigationTransactions = True, enableAppStartTracking = True,
       enableUserInteractionTracing = interactions \<rparr>"

definition tracing_state_ex :: "bool \<Rightarrow> rat \<Rightarrow> ReactNativeTracing" where
  "tracing_state_ex interactions finish =
     \<lparr> options = tracing_options_ex interactions,
       transactions = [''t1'' \<mapsto> route_tx_ex []],
       inflightInteractionTransaction = None,
       scopeTransaction = Some ''t1'',
       getCurrentHub_set = True,
       awaitingAppStartData = None,
       appStartFinishTimestamp = Some finish,
       currentRoute = Some ''Home'',
       currentViewName = Some ''Home'',
       instrumentation_calls = [],
       tracing_logged = [] \<rparr>"

definition app_start_ex :: "bool \<Rightarrow> NativeAppStartResponse" where
  "app_start_ex cold = \<lparr> isColdStart = cold, appStartTime = 100000, didFetchAppStart = False \<rparr>"

section \<open>Properties\<close>

subsection \<open>Properties of the merge\<close>

lemma pushFrames_append:
  "pushFrames os hf nf = hf @ map (nativeFrame os) nf"
  by (induction nf arbitrary: hf) simp_all

lemma merge_result:
  assumes "frames hermes = Some hf" and "stacks hermes = Some hs"
  shows "addNativeThreadCpuProfileToHermes os hermes native tid =
           Inr (hermes\<lparr> thread_metadata := Some (spread (thread_metadata native) ++ spread (thread_metadata hermes)),
                        queue_metadata := Some (spread (queue_metadata native) ++ spread (queue_metadata hermes)),
                        frames := Some (hf @ map (nativeFrame os) (or_empty (frames native))),
                        stacks := Some (hs @ map (map (\<lambda>i. i + int (length hf))) (or_empty (stacks native))),
                        samples := Some (or_empty (samples hermes) @
                                    map (\<lambda>s. s\<lparr>stack_id := int (length hs) + stack_id s\<rparr>)
                                      (filter (\<lambda>s. Some (thread_id s) \<noteq> tid) (or_empty (samples native)))) \<rparr>)"
  using assms
  by (simp add: addNativeThreadCpuProfileToHermes_def Let_def pushFrames_append or_empty_def
           split: option.splits)

text \<open>
  Claim C1. Merging a JS (Hermes) profile with \<open>F\<close> frames and a native profile with
  \<open>F'\<close> frames returns a profile with exactly \<open>F + F'\<close> frames whose first \<open>F\<close> frames
  are the JS frames, and every native-derived stack (the stacks after the JS stacks) is
  the native stack with each frame id increased by exactly \<open>F\<close>.
\<close>

theorem merge_frame_count_and_stack_shift:
  assumes "frames hermes = Some hf" and "stacks hermes = Some hs"
  shows "\<exists>r fs ss. addNativeThreadCpuProfileToHermes os hermes native tid = Inr r
           \<and> frames r = Some fs \<and> stacks r = Some ss
           \<and> length fs = length hf + length (or_empty (frames native))
           \<and> take (length hf) fs = hf
           \<and> length ss = length hs + length (or_empty (stacks native))
           \<and> take (length hs) ss = hs
           \<and> (\<forall>j < length (or_empty (stacks native)).
                 length (ss ! (length hs + j)) = length (or_empty (stacks native) ! j)
               \<and> (\<forall>k < length (or_empty (stacks native) ! j).
                     ss ! (length hs + j) ! k = or_empty (stacks native) ! j ! k + int (length hf)))"
  by (simp add: merge_result [OF assms] nth_append)

theorem merge_frame_count_and_stack_shift_witness:
  "frames hermes_ex = Some [js_frame ''main'', js_frame ''render'']
   \<and> stacks hermes_ex = Some [[0], [1, 0]]
   \<and> (\<exists>r fs ss. addNativeThreadCpuProfileToHermes ''ios'' hermes_ex native_ex (Some ''1'') = Inr r
           \<and> frames r = Some fs \<and> stacks r = Some ss
           \<and> length fs = 4 \<and> length ss = 4
           \<and> ss ! 2 ! 0 = 2 \<and> ss ! 3 ! 0 = 3 \<and> ss ! 3 ! 1 = 2)"
proof -
  have f: "frames hermes_ex = Some [js_frame ''main'', js_frame ''render'']"
    and s: "stacks hermes_ex = Some [[0], [1, 0]]"
    by (simp_all add: hermes_ex_def)
  have n: "or_empty (stacks native_ex) = [[0], [1, 0]]" "or_empty (frames native_ex) =
      [native_frame_ex ''start'' ''0x10'', native_frame_ex ''loop'' ''0x20'']"
    by (simp_all add: native_ex_def or_empty_def)
  from merge_frame_count_and_stack_shift [OF f s, of "''ios''" native_ex "Some ''1''"]
  obtain r fs ss where
    r: "addNativeThreadCpuProfileToHermes ''ios'' hermes_ex native_ex (Some ''1'') = Inr r"
      "frames r = Some fs" "stacks r = Some ss"
      "length fs = length [js_frame ''main'', js_frame ''render''] + length (or_empty (frames native_ex))"
      "length ss = length [[0::int], [1, 0]] + length (or_empty (stacks native_ex))"
    and sh: "\<forall>j < length (or_empty (stacks native_ex)).
                 length (ss ! (length [[0::int], [1, 0]] + j)) = length (or_empty (stacks native_ex) ! j)
               \<and> (\<forall>k < length (or_empty (stacks native_ex) ! j).
                     ss ! (length [[0::int], [1, 0]] + j) ! k
                       = or_empty (stacks native_ex) ! j ! k
                         + int (length [js_frame ''main'', js_frame ''render'']))"
    by blast
  have "ss ! 2 ! 0 = 2"
    using sh [rule_format, of 0, THEN conjunct2, rule_format, of 0]
    by (simp add: n numeral_2_eq_2 numeral_3_eq_3)
  moreover have "ss ! 3 ! 0 = 3"
    using sh [rule_format, of 1, THEN conjunct2, rule_format, of 0]
    by (simp add: n numeral_2_eq_2 numeral_3_eq_3)
  moreover have "ss ! 3 ! 1 = 2"
    using sh [rule_format, of 1, THEN conjunct2, rule_format, of 1]
    by (simp add: n numeral_2_eq_2 numeral_3_eq_3)
  ultimately have "ss ! 2 ! 0 = 2" "ss ! 3 ! 0 = 3" "ss ! 3 ! 1 = 2" by simp_all
  with r f s show ?thesis by (simp add: n)
qed

text \<open>
  Claim C4. In the merged profile the JS samples come first and are unchanged; the
  samples after them are exactly the native samples whose \<open>thread_id\<close> differs from the
  active JS thread id, in their order, each with \<open>stack_id\<close> increased by the number of
  JS stacks. So no native-origin sample of the active JS thread is in the combined set,
  and every retained native sample is there with its remapped \<open>stack_id\<close>.
\<close>

theorem merge_samples_filtered:
  assumes "frames hermes = Some hf" and "stacks hermes = Some hs"
  shows "\<exists>r ss. addNativeThreadCpuProfileToHermes os hermes native tid = Inr r
           \<and> samples r = Some ss
           \<and> take (length (or_empty (samples hermes))) ss = or_empty (samples hermes)
           \<and> drop (length (or_empty (samples hermes))) ss =
                 map (\<lambda>s. s\<lparr>stack_id := int (length hs) + stack_id s\<rparr>)
                   (filter (\<lambda>s. Some (thread_id s) \<noteq> tid) (or_empty (samples native)))
           \<and> (\<forall>s \<in> set (drop (length (or_empty (samples hermes))) ss). Some (thread_id s) \<noteq> tid)
           \<and> (\<forall>s \<in> set (or_empty (samples native)). Some (thread_id s) \<noteq> tid \<longrightarrow>
                  s\<lparr>stack_id := int (length hs) + stack_id s\<rparr>
                    \<in> set (drop (length (or_empty (samples hermes))) ss))"
  by (auto simp add: merge_result [OF assms])

theorem merge_samples_filtered_witness:
  "frames hermes_ex = Some [js_frame ''main'', js_frame ''render'']
   \<and> stacks hermes_ex = Some [[0], [1, 0]]
   \<and> (\<exists>r ss. addNativeThreadCpuProfileToHermes ''ios'' hermes_ex native_ex (Some ''1'') = Inr r
           \<and> samples r = Some ss
           \<and> ss = [sample_ex 0 ''1'', sample_ex 1 ''1'', sample_ex 3 ''7''])"
proof -
  have f: "frames hermes_ex = Some [js_frame ''main'', js_frame ''render'']"
    and s: "stacks hermes_ex = Some [[0], [1, 0]]"
    by (simp_all add: hermes_ex_def)
  have h: "or_empty (samples hermes_ex) = [sample_ex 0 ''1'', sample_ex 1 ''1'']"
    and n: "or_empty (samples native_ex) = [sample_ex 0 ''1'', sample_ex 1 ''7'']"
    by (simp_all add: hermes_ex_def native_ex_def or_empty_def)
  from merge_samples_filtered [OF f s, of "''ios''" native_ex "Some ''1''"]
  obtain r ss where
    r: "addNativeThreadCpuProfileToHermes ''ios'' hermes_ex native_ex (Some ''1'') = Inr r"
      "samples r = Some ss"
    and t: "take (length (or_empty (samples hermes_ex))) ss = or_empty (samples hermes_ex)"
    and d: "drop (length (or_empty (samples hermes_ex))) ss =
                 map (\<lambda>s. s\<lparr>stack_id := int (length [[0::int], [1, 0]]) + stack_id s\<rparr>)
                   (filter (\<lambda>s. Some (thread_id s) \<noteq> Some ''1'') (or_empty (samples native_ex)))"
    by blast
  have t2: "take 2 ss = [sample_ex 0 ''1'', sample_ex 1 ''1'']"
    using t by (simp add: h numeral_2_eq_2)
  have d2: "drop 2 ss = [sample_ex 3 ''7'']"
    using d by (simp add: h n sample_ex_def numeral_2_eq_2)
  have "take 2 ss @ drop 2 ss = [sample_ex 0 ''1'', sample_ex 1 ''1'', sample_ex 3 ''7'']"
    unfolding t2 d2 by simp
  then have "ss = [sample_ex 0 ''1'', sample_ex 1 ''1'', sample_ex 3 ''7'']"
    by simp
  then show ?thesis using r f s by simp
qed

text \<open>
  Claim C10. For the \<open>thread_metadata\<close> and the \<open>queue_metadata\<close> of the merged profile:
  a key of the JS (Hermes) map keeps the JS entry, whether or not the native map has the
  key too; a key of the native map only keeps the native entry; no other key appears.
\<close>

theorem merge_metadata_hermes_wins:
  assumes "frames hermes = Some hf" and "stacks hermes = Some hs"
  shows "\<exists>r tm qm. addNativeThreadCpuProfileToHermes os hermes native tid = Inr r
           \<and> thread_metadata r = Some tm \<and> queue_metadata r = Some qm
           \<and> (\<forall>k \<in> dom (spread (thread_metadata hermes)). tm k = spread (thread_metadata hermes) k)
           \<and> (\<forall>k. k \<notin> dom (spread (thread_metadata hermes)) \<longrightarrow> tm k = spread (thread_metadata native) k)
           \<and> dom tm = dom (spread (thread_metadata hermes)) \<union> dom (spread (thread_metadata native))
           \<and> (\<forall>k \<in> dom (spread (queue_metadata hermes)). qm k = spread (queue_metadata hermes) k)
           \<and> (\<forall>k. k \<notin> dom (spread (queue_metadata hermes)) \<longrightarrow> qm k = spread (queue_metadata native) k)
           \<and> dom qm = dom (spread (queue_metadata hermes)) \<union> dom (spread (queue_metadata native))"
  by (auto simp add: merge_result [OF assms] map_add_def split: option.splits)

theorem merge_metadata_hermes_wins_witness:
  "frames hermes_ex = Some [js_frame ''main'', js_frame ''render'']
   \<and> stacks hermes_ex = Some [[0], [1, 0]]
   \<and> (\<exists>r tm qm. addNativeThreadCpuProfileToHermes ''ios'' hermes_ex native_ex (Some ''1'') = Inr r
           \<and> thread_metadata r = Some tm \<and> queue_metadata r = Some qm
           \<and> tm ''1'' = Some \<lparr> name = Some ''JavaScriptThread'', priority = Some 1 \<rparr>
           \<and> tm ''7'' = Some \<lparr> name = Some ''worker'', priority = None \<rparr>
           \<and> tm ''9'' = None
           \<and> qm ''q'' = Some \<lparr> label = ''com.apple.main-thread'' \<rparr>)"
proof -
  have f: "frames hermes_ex = Some [js_frame ''main'', js_frame ''render'']"
    and s: "stacks hermes_ex = Some [[0], [1, 0]]"
    by (simp_all add: hermes_ex_def)
  from merge_metadata_hermes_wins [OF f s, of "''ios''" native_ex "Some ''1''"]
  obtain r tm qm where
    r: "addNativeThreadCpuProfileToHermes ''ios'' hermes_ex native_ex (Some ''1'') = Inr r"
      "thread_metadata r = Some tm" "queue_metadata r = Some qm"
    and th: "\<forall>k \<in> dom (spread (thread_metadata hermes_ex)). tm k = spread (thread_metadata hermes_ex) k"
    and tn: "\<forall>k. k \<notin> dom (spread (thread_metadata hermes_ex)) \<longrightarrow> tm k = spread (thread_metadata native_ex) k"
    and qn: "\<forall>k. k \<notin> dom (spread (queue_metadata hermes_ex)) \<longrightarrow> qm k = spread (queue_metadata native_ex) k"
    by blast
  have "tm ''1'' = Some \<lparr> name = Some ''JavaScriptThread'', priority = Some 1 \<rparr>"
    using th by (simp add: hermes_ex_def spread_def)
  moreover have "tm ''7'' = Some \<lparr> name = Some ''worker'', priority = None \<rparr>"
    using tn [rule_format, of "''7''"] by (simp add: hermes_ex_def native_ex_def spread_def)
  moreover have "tm ''9'' = None"
    using tn [rule_format, of "''9''"] by (simp add: hermes_ex_def native_ex_def spread_def)
  moreover have "qm ''q'' = Some \<lparr> label = ''com.apple.main-thread'' \<rparr>"
    using qn [rule_format, of "''q''"] by (simp add: hermes_ex_def native_ex_def spread_def)
  ultimately show ?thesis using r f s by simp
qed

subsection \<open>Properties of the profile queue\<close>

lemma map_of_filter_key: "map_of (filter (\<lambda>kv. fst kv \<noteq> k) q) k = None"
  by (induction q) auto

lemma queue_get_delete: "queue_get k (queue_delete k q) = None"
  by (simp add: queue_get_def queue_delete_def map_of_filter_key)

lemma queue_get_delete_other: "k' \<noteq> k \<Longrightarrow> queue_get k' (queue_delete k q) = queue_get k' q"
  by (induction q) (auto simp: queue_get_def queue_delete_def)

lemma queue_get_add: "queue_get k (queue_add c k v q) = Some v"
  by (simp add: queue_get_def queue_add_def queue_delete_def Let_def map_add_def map_of_filter_key)

lemma keys_queue_delete: "k \<notin> fst ` set (queue_delete k q)"
  by (auto simp: queue_delete_def)

subsection \<open>Properties of the capture session\<close>

lemma finish_clears: "currentProfile (finishCurrentProfile env st) = None"
  by (simp add: finishCurrentProfile_def clearCurrentProfileTimeout_def logger_def Let_def split: option.splits)

lemma finish_idem: "finishCurrentProfile env (finishCurrentProfile env st) = finishCurrentProfile env st"
  by (simp add: finishCurrentProfile_def clearCurrentProfileTimeout_def logger_def Let_def split: option.splits)

lemma finish_uuid_calls: "uuid_calls (finishCurrentProfile env st) = uuid_calls st"
  by (simp add: finishCurrentProfile_def clearCurrentProfileTimeout_def logger_def Let_def split: option.splits)

lemma finish_active:
  assumes "currentProfile st = Some old"
  shows "case stopProfiling env (startTimestampNs old) of
           Some p \<Rightarrow>
             PROFILE_QUEUE (finishCurrentProfile env st) =
               queue_add (queue_capacity st) (profile_id old) p (PROFILE_QUEUE st)
             \<and> logged (finishCurrentProfile env st) =
                 logged st @ [(LOG, [''[Profiling] finished profiling: '', profile_id old])]
         | None \<Rightarrow>
             PROFILE_QUEUE (finishCurrentProfile env st) = PROFILE_QUEUE st
             \<and> logged (finishCurrentProfile env st) =
                 logged st @ [(WARN, [''[Profiling] Stop failed. Cleaning up...''])]"
  using assms
  by (simp add: finishCurrentProfile_def clearCurrentProfileTimeout_def logger_def Let_def split: option.splits)

lemma startNew_session:
  assumes "currentProfile st = None"
  shows "currentProfile (snd (startNewProfile uuid4 env sp st)) = Some new \<Longrightarrow>
           profile_id new = uuid4 (uuid_calls st)
           \<and> uuid_calls (snd (startNewProfile uuid4 env sp st)) = Suc (uuid_calls st)"
    and "PROFILE_QUEUE (snd (startNewProfile uuid4 env sp st)) = PROFILE_QUEUE st"
    and "\<exists>rest. logged (snd (startNewProfile uuid4 env sp st)) = logged st @ rest"
    and "session_id_issued uuid4 (snd (startNewProfile uuid4 env sp st))"
  using assms
  by (auto simp add: startNewProfile_def logger_def Let_def session_id_issued_def split: option.splits if_splits)

lemma shouldStart_state:
  "currentProfile (snd (shouldStartProfiling env sp st)) = currentProfile st"
  "uuid_calls (snd (shouldStartProfiling env sp st)) = uuid_calls st"
  "PROFILE_QUEUE (snd (shouldStartProfiling env sp st)) = PROFILE_QUEUE st"
  "\<exists>rest. logged (snd (shouldStartProfiling env sp st)) = logged st @ rest"
  by (auto simp add: shouldStartProfiling_def logger_def split: option.splits)

lemma start_on_idle:
  assumes "currentProfile st = None"
  shows "currentProfile (snd (startCurrentProfile uuid4 env sp st)) = Some new \<Longrightarrow>
           profile_id new = uuid4 (uuid_calls st)
           \<and> uuid_calls (snd (startCurrentProfile uuid4 env sp st)) = Suc (uuid_calls st)"
    and "PROFILE_QUEUE (snd (startCurrentProfile uuid4 env sp st)) = PROFILE_QUEUE st"
    and "\<exists>rest. logged (snd (startCurrentProfile uuid4 env sp st)) = logged st @ rest"
    and "session_id_issued uuid4 (snd (startCurrentProfile uuid4 env sp st))"
  using assms
  by (auto simp add: startCurrentProfile_def finishCurrentProfile_def clearCurrentProfileTimeout_def
        shouldStartProfiling_def startNewProfile_def startProfiling_def logger_def Let_def
        session_id_issued_def split: option.splits if_splits)

lemma start_after_finish:
  "startCurrentProfile uuid4 env sp st = startCurrentProfile uuid4 env sp (finishCurrentProfile env st)"
  by (simp add: startCurrentProfile_def finish_idem)

lemma inj_uuid4_ex: "inj uuid4_ex"
proof (rule injI)
  fix m n assume "uuid4_ex m = uuid4_ex n"
  then have "length (uuid4_ex m) = length (uuid4_ex n)" by simp
  then show "m = n" by (simp add: uuid4_ex_def)
qed

text \<open>
  Claim C2. The integration holds at most one capture session (the single field
  \<open>_currentProfile\<close>). When \<open>_startCurrentProfile\<close> is called while a session \<open>old\<close> is
  active, it first runs \<open>_finishCurrentProfile\<close>: after that step no session is active, no
  identifier has been drawn yet, and the old profile is either in the queue under the old
  identifier (logged as finished) or discarded (stop failure logged, queue untouched).
  The call then behaves exactly as a call on that finished state; whatever it logs comes
  after the finish entry, and a session it starts carries the next identifier drawn from
  \<open>uuid4\<close>, which differs from the old one. The generator \<open>uuid4\<close> is assumed not to
  repeat a value (\<open>inj uuid4\<close>), and the old identifier to have been drawn from it.
\<close>

theorem start_force_finishes_active_session:
  assumes inj: "inj uuid4"
    and inv: "session_id_issued uuid4 st"
    and act: "currentProfile st = Some old"
  shows "currentProfile (finishCurrentProfile env st) = None
       \<and> uuid_calls (finishCurrentProfile env st) = uuid_calls st
       \<and> (case stopProfiling env (startTimestampNs old) of
            Some p \<Rightarrow>
              queue_get (profile_id old) (PROFILE_QUEUE (finishCurrentProfile env st)) = Some p
              \<and> logged (finishCurrentProfile env st) =
                  logged st @ [(LOG, [''[Profiling] finished profiling: '', profile_id old])]
          | None \<Rightarrow>
              PROFILE_QUEUE (finishCurrentProfile env st) = PROFILE_QUEUE st
              \<and> logged (finishCurrentProfile env st) =
                  logged st @ [(WARN, [''[Profiling] Stop failed. Cleaning up...''])])
       \<and> startCurrentProfile uuid4 env sp st =
           startCurrentProfile uuid4 env sp (finishCurrentProfile env st)
       \<and> PROFILE_QUEUE (snd (startCurrentProfile uuid4 env sp st)) =
           PROFILE_QUEUE (finishCurrentProfile env st)
       \<and> (\<exists>rest. logged (snd (startCurrentProfile uuid4 env sp st)) =
                    logged (finishCurrentProfile env st) @ rest)
       \<and> (\<forall>new. currentProfile (snd (startCurrentProfile uuid4 env sp st)) = Some new \<longrightarrow>
                  profile_id new = uuid4 (uuid_calls st) \<and> profile_id new \<noteq> profile_id old)
       \<and> session_id_issued uuid4 (snd (startCurrentProfile uuid4 env sp st))"
proof -
  let ?mid = "finishCurrentProfile env st"
  let ?fin = "snd (startCurrentProfile uuid4 env sp st)"
  have idle: "currentProfile ?mid = None" by (rule finish_clears)
  have calls: "uuid_calls ?mid = uuid_calls st" by (rule finish_uuid_calls)
  have flushed: "case stopProfiling env (startTimestampNs old) of
            Some p \<Rightarrow>
              queue_get (profile_id old) (PROFILE_QUEUE ?mid) = Some p
              \<and> logged ?mid = logged st @ [(LOG, [''[Profiling] finished profiling: '', profile_id old])]
          | None \<Rightarrow>
              PROFILE_QUEUE ?mid = PROFILE_QUEUE st
              \<and> logged ?mid = logged st @ [(WARN, [''[Profiling] Stop failed. Cleaning up...''])]"
    using finish_active [OF act, of env]
    by (simp add: queue_get_add split: option.splits)
  have eq: "startCurrentProfile uuid4 env sp st = startCurrentProfile uuid4 env sp ?mid"
    by (rule start_after_finish)
  have queue: "PROFILE_QUEUE ?fin = PROFILE_QUEUE ?mid"
    using start_on_idle(2) [OF idle, of uuid4 env sp] eq by simp
  have log: "\<exists>rest. logged ?fin = logged ?mid @ rest"
    using start_on_idle(3) [OF idle, of uuid4 env sp] eq by simp
  have issued: "session_id_issued uuid4 ?fin"
    using start_on_idle(4) [OF idle, of uuid4 env sp] eq by simp
  have fresh: "profile_id new = uuid4 (uuid_calls st) \<and> profile_id new \<noteq> profile_id old"
    if new: "currentProfile ?fin = Some new" for new
  proof -
    from new eq have "currentProfile (snd (startCurrentProfile uuid4 env sp ?mid)) = Some new"
      by simp
    from start_on_idle(1) [OF idle this] calls
    have n: "profile_id new = uuid4 (uuid_calls st)" by simp
    from inv act obtain k where k: "k < uuid_calls st" "profile_id old = uuid4 k"
      by (auto simp add: session_id_issued_def)
    from k(1) inj have "uuid4 k \<noteq> uuid4 (uuid_calls st)"
      by (auto dest: injD)
    with n k(2) show ?thesis by simp
  qed
  from idle calls flushed eq queue log issued fresh show ?thesis by blast
qed

theorem start_force_finishes_active_session_witness:
  "inj uuid4_ex
   \<and> session_id_issued uuid4_ex profiling_state_ex
   \<and> currentProfile profiling_state_ex = Some \<lparr>profile_id = ''id'', startTimestampNs = 1000000\<rparr>
   \<and> currentProfile (finishCurrentProfile profiling_env_ex profiling_state_ex) = None
   \<and> queue_get ''id'' (PROFILE_QUEUE (finishCurrentProfile profiling_env_ex profiling_state_ex)) = Some 19
   \<and> currentProfile (snd (startCurrentProfile uuid4_ex profiling_env_ex span_ex profiling_state_ex))
       = Some \<lparr>profile_id = ''idx'', startTimestampNs = 5000000\<rparr>
   \<and> ''idx'' \<noteq> ''id''"
proof -
  have h1: "inj uuid4_ex" by (rule inj_uuid4_ex)
  have h2: "session_id_issued uuid4_ex profiling_state_ex"
    by (simp add: session_id_issued_def profiling_state_ex_def uuid4_ex_def lessThan_Suc)
  have h3: "currentProfile profiling_state_ex = Some \<lparr>profile_id = ''id'', startTimestampNs = 1000000\<rparr>"
    by (simp add: profiling_state_ex_def)
  note t = start_force_finishes_active_session [OF h1 h2 h3, of profiling_env_ex span_ex]
  have s: "stopProfiling profiling_env_ex 1000000 = Some 19"
    by (simp add: profiling_env_ex_def)
  from t have c1: "currentProfile (finishCurrentProfile profiling_env_ex profiling_state_ex) = None"
    by blast
  from t s have c2: "queue_get ''id'' (PROFILE_QUEUE (finishCurrentProfile profiling_env_ex profiling_state_ex)) = Some 19"
    by simp
  from t [THEN conjunct2, THEN conjunct2, THEN conjunct2, THEN conjunct2, THEN conjunct2,
          THEN conjunct2, THEN conjunct1]
  have c3: "\<forall>new. currentProfile (snd (startCurrentProfile uuid4_ex profiling_env_ex span_ex profiling_state_ex))
                = Some new \<longrightarrow> profile_id new \<noteq> ''id''"
    by auto
  have c4: "currentProfile (snd (startCurrentProfile uuid4_ex profiling_env_ex span_ex profiling_state_ex))
       = Some \<lparr>profile_id = ''idx'', startTimestampNs = 5000000\<rparr>"
    by (simp add: startCurrentProfile_def finishCurrentProfile_def clearCurrentProfileTimeout_def
        shouldStartProfiling_def startNewProfile_def startProfiling_def logger_def Let_def
        profiling_state_ex_def profiling_env_ex_def span_ex_def uuid4_ex_def queue_add_def)
  from c3 c4 have c5: "''idx'' \<noteq> ''id''" by simp
  from h1 h2 h3 c1 c2 c4 c5 show ?thesis by blast
qed

subsection \<open>Properties of matching a profile to a report\<close>

lemma createProfileEventFor_found:
  assumes "get_prop (get_prop (contexts_value ev) ''profile'') ''profile_id'' = JString p"
  shows "PROFILE_QUEUE (snd (snd (createProfileEventFor enrich ev st))) =
           queue_delete p (PROFILE_QUEUE st)"
  using assms
  by (simp add: createProfileEventFor_def Let_def logger_def split: option.splits)

lemma createProfileEventFor_miss:
  assumes "get_prop (get_prop (contexts_value ev) ''profile'') ''profile_id'' = JString p"
    and "queue_get p (PROFILE_QUEUE st) = None"
  shows "fst (createProfileEventFor enrich ev st) = None"
    and "logged (snd (snd (createProfileEventFor enrich ev st))) =
           logged st @ [(LOG, [''[Profiling] cannot find profile '' @ p @ '' for transaction ''
                                 @ event_id_text ev])]"
  using assms
  by (simp_all add: createProfileEventFor_def Let_def logger_def event_id_text_def)

lemma createProfileEventFor_no_id:
  assumes "\<forall>p. get_prop (get_prop (contexts_value ev) ''profile'') ''profile_id'' \<noteq> JString p"
  shows "createProfileEventFor enrich ev st =
           (None, ev, logger LOG [''[Profiling] cannot find profile for a transaction without a profile context''] st)"
  using assms
  by (simp add: createProfileEventFor_def split: jsval.splits)

text \<open>
  Claim C5. For a report whose profile context carries the identifier \<open>p\<close>: after
  \<open>_createProfileEventFor\<close> the queue has no entry for \<open>p\<close> (the other entries are
  untouched), so a later call for any report carrying \<open>p\<close> returns \<open>null\<close>; when the queue
  had an entry for \<open>p\<close>, that profile is the one handed to the enrichment; when it had
  none, the call returns \<open>null\<close> and logs the miss. The function has no throwing path:
  every property read goes through optional chaining, so the model is total.
\<close>

theorem dequeued_profile_cannot_be_claimed_again:
  assumes "get_prop (get_prop (contexts_value ev) ''profile'') ''profile_id'' = JString p"
  shows "queue_get p (PROFILE_QUEUE (snd (snd (createProfileEventFor enrich ev st)))) = None
       \<and> p \<notin> fst ` set (PROFILE_QUEUE (snd (snd (createProfileEventFor enrich ev st))))
       \<and> (\<forall>k. k \<noteq> p \<longrightarrow>
             queue_get k (PROFILE_QUEUE (snd (snd (createProfileEventFor enrich ev st)))) =
               queue_get k (PROFILE_QUEUE st))
       \<and> (\<forall>prof. queue_get p (PROFILE_QUEUE st) = Some prof \<longrightarrow>
             fst (createProfileEventFor enrich ev st) =
               enrich p prof (fst (snd (createProfileEventFor enrich ev st))))
       \<and> (\<forall>ev2. get_prop (get_prop (contexts_value ev2) ''profile'') ''profile_id'' = JString p \<longrightarrow>
             fst (createProfileEventFor enrich ev2 (snd (snd (createProfileEventFor enrich ev st)))) = None)
       \<and> (queue_get p (PROFILE_QUEUE st) = None \<longrightarrow>
             fst (createProfileEventFor enrich ev st) = None
             \<and> logged (snd (snd (createProfileEventFor enrich ev st))) =
                   logged st @ [(LOG, [''[Profiling] cannot find profile '' @ p @ '' for transaction ''
                                         @ event_id_text ev])])"
proof -
  let ?st' = "snd (snd (createProfileEventFor enrich ev st))"
  have q: "PROFILE_QUEUE ?st' = queue_delete p (PROFILE_QUEUE st)"
    by (rule createProfileEventFor_found [OF assms])
  have a: "queue_get p (PROFILE_QUEUE ?st') = None"
    by (simp add: q queue_get_delete)
  have b: "p \<notin> fst ` set (PROFILE_QUEUE ?st')"
    unfolding q by (rule keys_queue_delete)
  have c: "\<forall>k. k \<noteq> p \<longrightarrow> queue_get k (PROFILE_QUEUE ?st') = queue_get k (PROFILE_QUEUE st)"
    by (simp add: q queue_get_delete_other)
  have d: "\<forall>prof. queue_get p (PROFILE_QUEUE st) = Some prof \<longrightarrow>
             fst (createProfileEventFor enrich ev st) =
               enrich p prof (fst (snd (createProfileEventFor enrich ev st)))"
    using assms by (simp add: createProfileEventFor_def Let_def)
  have e: "\<forall>ev2. get_prop (get_prop (contexts_value ev2) ''profile'') ''profile_id'' = JString p \<longrightarrow>
             fst (createProfileEventFor enrich ev2 ?st') = None"
    using a by (simp add: createProfileEventFor_miss(1))
  have f: "queue_get p (PROFILE_QUEUE st) = None \<longrightarrow>
             fst (createProfileEventFor enrich ev st) = None
             \<and> logged ?st' =
                   logged st @ [(LOG, [''[Profiling] cannot find profile '' @ p @ '' for transaction ''
                                         @ event_id_text ev])]"
    using createProfileEventFor_miss [OF assms, of st enrich] by blast
  from a b c d e f show ?thesis by blast
qed

theorem dequeued_profile_cannot_be_claimed_again_witness:
  "get_prop (get_prop (contexts_value event_ex) ''profile'') ''profile_id'' = JString ''p1''
   \<and> fst (createProfileEventFor enrich_ex event_ex profiling_state_ex) = Some (''p1'', 17)
   \<and> queue_get ''p1'' (PROFILE_QUEUE (snd (snd (createProfileEventFor enrich_ex event_ex profiling_state_ex)))) = None
   \<and> queue_get ''p2'' (PROFILE_QUEUE (snd (snd (createProfileEventFor enrich_ex event_ex profiling_state_ex)))) = Some 18
   \<and> fst (createProfileEventFor enrich_ex event_ex
            (snd (snd (createProfileEventFor enrich_ex event_ex profiling_state_ex)))) = None"
proof -
  have h: "get_prop (get_prop (contexts_value event_ex) ''profile'') ''profile_id'' = JString ''p1''"
    by (simp add: event_ex_def contexts_value_def)
  note t = dequeued_profile_cannot_be_claimed_again [OF h, of enrich_ex profiling_state_ex]
  have g1: "queue_get ''p1'' (PROFILE_QUEUE profiling_state_ex) = Some 17"
    and g2: "queue_get ''p2'' (PROFILE_QUEUE profiling_state_ex) = Some 18"
    by (simp_all add: profiling_state_ex_def queue_get_def)
  from t have c1: "queue_get ''p1'' (PROFILE_QUEUE (snd (snd (createProfileEventFor enrich_ex event_ex profiling_state_ex)))) = None"
    by blast
  from t [THEN conjunct2, THEN conjunct2, THEN conjunct1, rule_format, of "''p2''"] g2
  have c2: "queue_get ''p2'' (PROFILE_QUEUE (snd (snd (createProfileEventFor enrich_ex event_ex profiling_state_ex)))) = Some 18"
    by simp
  from t [THEN conjunct2, THEN conjunct2, THEN conjunct2, THEN conjunct1, rule_format, OF g1]
  have c3: "fst (createProfileEventFor enrich_ex event_ex profiling_state_ex) = Some (''p1'', 17)"
    by (simp add: enrich_ex_def)
  from t [THEN conjunct2, THEN conjunct2, THEN conjunct2, THEN conjunct2, THEN conjunct1,
          rule_format, OF h]
  have c4: "fst (createProfileEventFor enrich_ex event_ex
            (snd (snd (createProfileEventFor enrich_ex event_ex profiling_state_ex)))) = None" .
  from h c1 c2 c3 c4 show ?thesis by blast
qed

text \<open>
  Claim C6 (the code departs from it). The report \<open>event_ex\<close> carries the profile
  identifier \<open>p1\<close> in \<open>contexts.profile\<close> and \<open>p1\<close> is queued. The profile is matched and
  returned, but the report keeps its \<open>profile\<close> context: the guard before the \<open>delete\<close>
  reads the key \<open>'.profile'\<close>, which the report does not have.
\<close>

theorem matched_report_keeps_profile_context:
  "fst (createProfileEventFor enrich_ex event_ex profiling_state_ex) = Some (''p1'', 17)
   \<and> fst (snd (createProfileEventFor enrich_ex event_ex profiling_state_ex)) = event_ex
   \<and> get_prop (contexts_value (fst (snd (createProfileEventFor enrich_ex event_ex profiling_state_ex))))
        ''profile'' = JObject [(''profile_id'', JString ''p1'')]"
  by (simp add: createProfileEventFor_def Let_def logger_def event_ex_def contexts_value_def
        profiling_state_ex_def queue_get_def enrich_ex_def)

subsection \<open>Properties of the app start attribution\<close>

lemma measurements_setMeasurement:
  "measurements (setMeasurement n v u tx) n = Some (v, u)"
  by (simp add: setMeasurement_def)

lemma addAppStartData_outlier:
  assumes "getAppStartDurationMilliseconds st appStart = Some d" and "d \<ge> 60000"
  shows "addAppStartData c env tx appStart st = (tx, st)"
  using assms by (simp add: addAppStartData_def maxAppStart_def)

lemma addAppStartData_measured:
  assumes "getAppStartDurationMilliseconds st appStart = Some d" and "0 < d" and "d < 60000"
  shows "measurements (fst (addAppStartData c env tx appStart st))
           (if isColdStart appStart then APP_START_COLD c else APP_START_WARM c)
         = Some (d, ''millisecond'')"
    and "snd (addAppStartData c env tx appStart st) = st"
  using assms
  by (simp_all add: addAppStartData_def maxAppStart_def Let_def measurements_setMeasurement)

text \<open>
  Claim C7. With the app start duration \<open>d\<close> computed from the fetched app start record
  (finish timestamp in seconds times 1000, minus the native app start time in
  milliseconds): when \<open>d \<ge> 60000\<close>, \<open>_addAppStartData\<close> leaves the transaction as it is (no
  child span, no measurement); when \<open>0 < d < 60000\<close>, the transaction gets the cold start
  measurement if \<open>isColdStart\<close> is set and the warm start measurement otherwise, with value
  \<open>d\<close> in milliseconds.
\<close>

theorem app_start_outlier_filter_and_measurement:
  assumes "getAppStartDurationMilliseconds st appStart = Some d"
  shows "(d \<ge> 60000 \<longrightarrow> addAppStartData c env tx appStart st = (tx, st))
       \<and> (0 < d \<and> d < 60000 \<longrightarrow>
            measurements (fst (addAppStartData c env tx appStart st))
              (if isColdStart appStart then APP_START_COLD c else APP_START_WARM c)
              = Some (d, ''millisecond'')
            \<and> snd (addAppStartData c env tx appStart st) = st)"
  using addAppStartData_outlier [OF assms] addAppStartData_measured [OF assms]
  by blast

theorem app_start_outlier_filter_and_measurement_witness:
  "getAppStartDurationMilliseconds (tracing_state_ex False 170) (app_start_ex True) = Some 70000
   \<and> addAppStartData constants_ex tracing_env_ex (route_tx_ex []) (app_start_ex True)
        (tracing_state_ex False 170) = (route_tx_ex [], tracing_state_ex False 170)
   \<and> getAppStartDurationMilliseconds (tracing_state_ex False (1005 / 10)) (app_start_ex True) = Some 500
   \<and> measurements (fst (addAppStartData constants_ex tracing_env_ex (route_tx_ex []) (app_start_ex True)
        (tracing_state_ex False (1005 / 10)))) ''app_start_cold'' = Some (500, ''millisecond'')
   \<and> getAppStartDurationMilliseconds (tracing_state_ex False (1005 / 10)) (app_start_ex False) = Some 500
   \<and> measurements (fst (addAppStartData constants_ex tracing_env_ex (route_tx_ex []) (app_start_ex False)
        (tracing_state_ex False (1005 / 10)))) ''app_start_warm'' = Some (500, ''millisecond'')"
proof -
  have h1: "getAppStartDurationMilliseconds (tracing_state_ex False 170) (app_start_ex True) = Some 70000"
    and h2: "getAppStartDurationMilliseconds (tracing_state_ex False (1005 / 10)) (app_start_ex True) = Some 500"
    and h3: "getAppStartDurationMilliseconds (tracing_state_ex False (1005 / 10)) (app_start_ex False) = Some 500"
    by (simp_all add: getAppStartDurationMilliseconds_def tracing_state_ex_def app_start_ex_def)
  from app_start_outlier_filter_and_measurement [OF h1, of constants_ex tracing_env_ex "route_tx_ex []"]
  have c1: "addAppStartData constants_ex tracing_env_ex (route_tx_ex []) (app_start_ex True)
        (tracing_state_ex False 170) = (route_tx_ex [], tracing_state_ex False 170)"
    by simp
  from app_start_outlier_filter_and_measurement [OF h2, of constants_ex tracing_env_ex "route_tx_ex []"]
  have c2: "measurements (fst (addAppStartData constants_ex tracing_env_ex (route_tx_ex []) (app_start_ex True)
        (tracing_state_ex False (1005 / 10)))) ''app_start_cold'' = Some (500, ''millisecond'')"
    by (simp add: app_start_ex_def constants_ex_def)
  from app_start_outlier_filter_and_measurement [OF h3, of constants_ex tracing_env_ex "route_tx_ex []"]
  have c3: "measurements (fst (addAppStartData constants_ex tracing_env_ex (route_tx_ex []) (app_start_ex False)
        (tracing_state_ex False (1005 / 10)))) ''app_start_warm'' = Some (500, ''millisecond'')"
    by (simp add: app_start_ex_def constants_ex_def)
  from h1 h2 h3 c1 c2 c3 show ?thesis by blast
qed

subsection \<open>Properties of route transactions\<close>

lemma ignoreEmptyBackNavigation_drops:
  assumes "truthy (get_prop (get_prop (tx_data tx) ''route'') ''hasBeenSeen'')"
    and "\<forall>spans. spanRecorder tx = Some spans \<longrightarrow>
           (\<forall>s \<in> set spans. spanId s = spanId tx \<or> op s = Some ''ui.load.initial_display''
                              \<or> op s = Some ''navigation.processing'')"
  shows "fst (ignoreEmptyBackNavigation tx st) = tx\<lparr>sampled := Some False\<rparr>"
  using assms
  by (auto simp add: ignoreEmptyBackNavigation_def meaningfulChild_def filter_empty_conv
        split: option.splits)

lemma ignoreEmptyBackNavigation_keeps:
  assumes "spanRecorder tx = Some spans" and "s \<in> set spans" and "spanId s \<noteq> spanId tx"
    and "op s \<noteq> Some ''ui.load.initial_display''" and "op s \<noteq> Some ''navigation.processing''"
  shows "ignoreEmptyBackNavigation tx st = (tx, st)"
  using assms
  by (auto simp add: ignoreEmptyBackNavigation_def meaningfulChild_def filter_empty_conv)

lemma ignoreEmptyBackNavigation_unseen:
  assumes "\<not> truthy (get_prop (get_prop (tx_data tx) ''route'') ''hasBeenSeen'')"
  shows "ignoreEmptyBackNavigation tx st = (tx, st)"
  using assms by (simp add: ignoreEmptyBackNavigation_def)

lemma addAppStartData_options:
  "options (snd (addAppStartData c env tx a st)) = options st"
  by (simp add: addAppStartData_def tracing_logger_def Let_def split: option.splits)

lemma runCallback_options:
  "options (snd (runCallback c env e cb txst)) = options (snd txst)"
proof (cases txst)
  case (Pair tx st)
  show ?thesis
  proof (cases cb)
    case AppStartData
    show ?thesis
    proof (cases "awaitingAppStartData st")
      case None
      with Pair AppStartData show ?thesis by (simp add: runCallback_def)
    next
      case (Some a)
      obtain tx' st' where r: "addAppStartData c env (tx\<lparr>op := Some (UI_LOAD c)\<rparr>) a st = (tx', st')"
        by (cases "addAppStartData c env (tx\<lparr>op := Some (UI_LOAD c)\<rparr>) a st")
      from addAppStartData_options [of c env "tx\<lparr>op := Some (UI_LOAD c)\<rparr>" a st] r
      have "options st' = options st" by simp
      with Pair AppStartData Some r show ?thesis by (simp add: runCallback_def)
    qed
  qed (simp_all add: Pair runCallback_def onTransactionFinish_def ignoreEmptyBackNavigation_def
         tracing_logger_def)
qed

lemma foldl_runCallback_options:
  "options (snd (foldl (\<lambda>txst cb. runCallback c env e cb txst) txst cbs)) = options (snd txst)"
  by (induction cbs arbitrary: txst) (simp_all add: runCallback_options)

lemma endTransaction_options:
  "options (endTransaction c env r st) = options st"
proof (cases "transactions st r")
  case None
  then show ?thesis by (simp add: endTransaction_def)
next
  case (Some tx)
  obtain tx' st' where f: "foldl (\<lambda>txst cb. runCallback c env None cb txst) (tx, st)
                             (beforeFinishCallbacks tx) = (tx', st')"
    by (cases "foldl (\<lambda>txst cb. runCallback c env None cb txst) (tx, st) (beforeFinishCallbacks tx)")
  from foldl_runCallback_options [of c env None "(tx, st)" "beforeFinishCallbacks tx"] f
  have "options st' = options st" by simp
  with Some f show ?thesis by (simp add: endTransaction_def)
qed


lemma startIdleTransaction_fresh:
  "fst (startIdleTransaction env ctx st) = new_span_id env"
  "registeredCallbacks (snd (startIdleTransaction env ctx st)) (new_span_id env) = Some []"
  "options (snd (startIdleTransaction env ctx st)) = options st"
  by (simp_all add: startIdleTransaction_def registeredCallbacks_def Let_def)

lemma registerBeforeFinishCallback_adds:
  "registeredCallbacks (registerBeforeFinishCallback ref cb st) ref =
     map_option (\<lambda>cbs. cbs @ [cb]) (registeredCallbacks st ref)"
  "options (registerBeforeFinishCallback ref cb st) = options st"
  by (simp_all add: registerBeforeFinishCallback_def registeredCallbacks_def split: option.splits)

lemma onTransactionStart_keeps:
  "registeredCallbacks (onTransactionStart env r st) ref = registeredCallbacks st ref"
  "options (onTransactionStart env r st) = options st"
  by (simp_all add: onTransactionStart_def registeredCallbacks_def split: option.splits)

lemma tracing_logger_keeps:
  "registeredCallbacks (tracing_logger l m st) ref = registeredCallbacks st ref"
  "options (tracing_logger l m st) = options st"
  by (simp_all add: tracing_logger_def registeredCallbacks_def)

lemma createRouteTransaction_callbacks:
  assumes "getCurrentHub_set st"
  shows "fst (createRouteTransaction c env ctx st) = Some (new_span_id env)"
    and "registeredCallbacks (snd (createRouteTransaction c env ctx st)) (new_span_id env) =
           Some ([RouteTransactionFinished, AppStartData,
                  AdjustTransactionDuration (finalTimeoutMs (options st))]
                 @ (if ignoreEmptyBackNavigationTransactions (options st)
                    then [IgnoreEmptyBackNavigation] else []))"
proof -
  define st1 where "st1 =
    (case inflightTransaction st of
       None \<Rightarrow> st
     | Some (r, inflight) \<Rightarrow>
         (let sa = tracing_logger LOG
                     [''[ReactNativeTracing] Canceling '' @ text_of (op inflight)
                        @ '' transaction because navigation ''
                        @ text_of (ctx_op ctx) @ ''.''] st;
              sb = setStatus r ''cancelled'' sa
          in endTransaction c env r sb))"
  have o: "options st1 = options st"
    unfolding st1_def
    by (simp add: endTransaction_options setStatus_def tracing_logger_def Let_def
          split: option.splits)
  obtain ref st2 where s: "startIdleTransaction env (ctx\<lparr>ctx_trimEnd := True\<rparr>) st1 = (ref, st2)"
    by (cases "startIdleTransaction env (ctx\<lparr>ctx_trimEnd := True\<rparr>) st1")
  from startIdleTransaction_fresh [of env "ctx\<lparr>ctx_trimEnd := True\<rparr>" st1] s o
  have r: "ref = new_span_id env" "registeredCallbacks st2 (new_span_id env) = Some []"
    "options st2 = options st"
    by simp_all
  show "fst (createRouteTransaction c env ctx st) = Some (new_span_id env)"
    unfolding createRouteTransaction_def st1_def [symmetric]
    using assms by (simp add: Let_def s r(1))
  show "registeredCallbacks (snd (createRouteTransaction c env ctx st)) (new_span_id env) =
           Some ([RouteTransactionFinished, AppStartData,
                  AdjustTransactionDuration (finalTimeoutMs (options st))]
                 @ (if ignoreEmptyBackNavigationTransactions (options st)
                    then [IgnoreEmptyBackNavigation] else []))"
    unfolding createRouteTransaction_def st1_def [symmetric]
    using assms
    by (simp add: Let_def s r o registerBeforeFinishCallback_adds onTransactionStart_keeps
          tracing_logger_keeps)
qed

lemma runCallback_ignoreEmptyBackNavigation:
  "runCallback c env e IgnoreEmptyBackNavigation (tx, st) = ignoreEmptyBackNavigation tx st"
  by (simp add: runCallback_def)

text \<open>
  Claim C9. When \<open>ignoreEmptyBackNavigationTransactions\<close> is enabled (and the hub getter
  is set, so that a transaction is created), \<open>_createRouteTransaction\<close> registers the
  back-navigation callback as the last before-finish callback of the new transaction.
  Run on a transaction whose route data is marked as seen and whose recorded spans are
  only its own span, \<open>ui.load.initial_display\<close> spans and \<open>navigation.processing\<close> spans
  (or which has no span recorder), that callback sets \<open>sampled\<close> to false and changes
  nothing else of the transaction; run on a transaction with any other recorded span, it
  leaves the transaction, and so its sampling decision, as it is.
\<close>

theorem empty_back_navigation_not_sampled:
  "(getCurrentHub_set st \<and> ignoreEmptyBackNavigationTransactions (options st) \<longrightarrow>
      fst (createRouteTransaction c env ctx st) = Some (new_span_id env)
      \<and> (\<exists>cbs. registeredCallbacks (snd (createRouteTransaction c env ctx st)) (new_span_id env)
                  = Some (cbs @ [IgnoreEmptyBackNavigation])))
   \<and> (truthy (get_prop (get_prop (tx_data tx) ''route'') ''hasBeenSeen'')
       \<and> (\<forall>spans. spanRecorder tx = Some spans \<longrightarrow>
             (\<forall>s \<in> set spans. spanId s = spanId tx \<or> op s = Some ''ui.load.initial_display''
                                \<or> op s = Some ''navigation.processing''))
       \<longrightarrow> fst (runCallback c env e IgnoreEmptyBackNavigation (tx, st')) = tx\<lparr>sampled := Some False\<rparr>)
   \<and> ((\<exists>spans s. spanRecorder tx = Some spans \<and> s \<in> set spans \<and> spanId s \<noteq> spanId tx
           \<and> op s \<noteq> Some ''ui.load.initial_display'' \<and> op s \<noteq> Some ''navigation.processing'')
       \<longrightarrow> runCallback c env e IgnoreEmptyBackNavigation (tx, st') = (tx, st'))"
proof -
  have a: "fst (createRouteTransaction c env ctx st) = Some (new_span_id env)
      \<and> (\<exists>cbs. registeredCallbacks (snd (createRouteTransaction c env ctx st)) (new_span_id env)
                  = Some (cbs @ [IgnoreEmptyBackNavigation]))"
    if "getCurrentHub_set st" "ignoreEmptyBackNavigationTransactions (options st)"
    using createRouteTransaction_callbacks [OF that(1), of c env ctx] that(2) by simp
  have b: "fst (runCallback c env e IgnoreEmptyBackNavigation (tx, st')) = tx\<lparr>sampled := Some False\<rparr>"
    if "truthy (get_prop (get_prop (tx_data tx) ''route'') ''hasBeenSeen'')"
      "\<forall>spans. spanRecorder tx = Some spans \<longrightarrow>
             (\<forall>s \<in> set spans. spanId s = spanId tx \<or> op s = Some ''ui.load.initial_display''
                                \<or> op s = Some ''navigation.processing'')"
    using ignoreEmptyBackNavigation_drops [OF that] by (simp add: runCallback_ignoreEmptyBackNavigation)
  have d: "runCallback c env e IgnoreEmptyBackNavigation (tx, st') = (tx, st')"
    if "\<exists>spans s. spanRecorder tx = Some spans \<and> s \<in> set spans \<and> spanId s \<noteq> spanId tx
           \<and> op s \<noteq> Some ''ui.load.initial_display'' \<and> op s \<noteq> Some ''navigation.processing''"
    using that ignoreEmptyBackNavigation_keeps [of tx _ _ st']
    by (auto simp add: runCallback_ignoreEmptyBackNavigation)
  from a b d show ?thesis by blast
qed

theorem empty_back_navigation_not_sampled_witness:
  "getCurrentHub_set (tracing_state_ex True 170)
   \<and> ignoreEmptyBackNavigationTransactions (options (tracing_state_ex True 170))
   \<and> fst (createRouteTransaction constants_ex tracing_env_ex
             \<lparr>ctx_name = ''Settings'', ctx_op = Some ''navigation'', ctx_data = JUndefined,
              ctx_trimEnd = False\<rparr> (tracing_state_ex True 170)) = Some ''s9''
   \<and> sampled (route_tx_ex [child_ex ''c1'' ''ui.load.initial_display'']) = Some True
   \<and> sampled (fst (runCallback constants_ex tracing_env_ex None IgnoreEmptyBackNavigation
                (route_tx_ex [child_ex ''c1'' ''ui.load.initial_display''], tracing_state_ex True 170)))
       = Some False
   \<and> sampled (fst (runCallback constants_ex tracing_env_ex None IgnoreEmptyBackNavigation
                (route_tx_ex [child_ex ''c1'' ''http.client''], tracing_state_ex True 170)))
       = Some True"
proof -
  let ?st = "tracing_state_ex True 170"
  let ?ctx = "\<lparr>ctx_name = ''Settings'', ctx_op = Some ''navigation'', ctx_data = JUndefined,
              ctx_trimEnd = False\<rparr>"
  let ?empty = "route_tx_ex [child_ex ''c1'' ''ui.load.initial_display'']"
  let ?busy = "route_tx_ex [child_ex ''c1'' ''http.client'']"
  have h: "getCurrentHub_set ?st" "ignoreEmptyBackNavigationTransactions (options ?st)"
    by (simp_all add: tracing_state_ex_def tracing_options_ex_def)
  have seen: "truthy (get_prop (get_prop (tx_data ?empty) ''route'') ''hasBeenSeen'')"
    by (simp add: route_tx_ex_def)
  have housekeeping: "\<forall>spans. spanRecorder ?empty = Some spans \<longrightarrow>
             (\<forall>s \<in> set spans. spanId s = spanId ?empty \<or> op s = Some ''ui.load.initial_display''
                                \<or> op s = Some ''navigation.processing'')"
    by (simp add: route_tx_ex_def child_ex_def)
  have other: "\<exists>spans s. spanRecorder ?busy = Some spans \<and> s \<in> set spans \<and> spanId s \<noteq> spanId ?busy
           \<and> op s \<noteq> Some ''ui.load.initial_display'' \<and> op s \<noteq> Some ''navigation.processing''"
    by (rule exI [of _ "[child_ex ''t1'' ''navigation'', child_ex ''c1'' ''http.client'']"],
        rule exI [of _ "child_ex ''c1'' ''http.client''"])
       (simp add: route_tx_ex_def child_ex_def)
  from empty_back_navigation_not_sampled
         [where st = "?st" and c = constants_ex and env = tracing_env_ex and ctx = "?ctx"
            and tx = "?empty" and e = None and st' = "?st"]
       h seen housekeeping
  have c1: "fst (createRouteTransaction constants_ex tracing_env_ex ?ctx ?st) = Some (new_span_id tracing_env_ex)"
    and c2: "fst (runCallback constants_ex tracing_env_ex None IgnoreEmptyBackNavigation (?empty, ?st))
               = ?empty\<lparr>sampled := Some False\<rparr>"
    by blast+
  from empty_back_navigation_not_sampled
         [where st = "?st" and c = constants_ex and env = tracing_env_ex and ctx = "?ctx"
            and tx = "?busy" and e = None and st' = "?st"]
       other
  have c3: "runCallback constants_ex tracing_env_ex None IgnoreEmptyBackNavigation (?busy, ?st) = (?busy, ?st)"
    by blast
  have s0: "sampled ?empty = Some True" "sampled ?busy = Some True"
    by (simp_all add: route_tx_ex_def)
  have n: "new_span_id tracing_env_ex = ''s9''" by (simp add: tracing_env_ex_def)
  from h c1 c2 c3 s0 n show ?thesis by simp
qed

subsection \<open>Properties of user interaction transactions\<close>

lemma tracing_logged_kept:
  "tracing_logged (snd (startIdleTransaction env ctx st)) = tracing_logged st"
  "tracing_logged (registerBeforeFinishCallback ref cb st) = tracing_logged st"
  "tracing_logged (onTransactionStart env ref st) = tracing_logged st"
  "tracing_logged (cancelIdleTimeout ref st) = tracing_logged st"
  by (simp_all add: startIdleTransaction_def registerBeforeFinishCallback_def
        onTransactionStart_def cancelIdleTimeout_def Let_def split: option.splits)

lemma interaction_guard_results:
  "\<not> enableUserInteractionTracing (options st) \<Longrightarrow>
     startUserInteractionTransaction env elementId op' st =
       (None, tracing_logger LOG [''[ReactNativeTracing] User Interaction Tracing is disabled.''] st)"
  "enableUserInteractionTracing (options st) \<Longrightarrow> \<not> routingInstrumentation (options st) \<Longrightarrow>
     startUserInteractionTransaction env elementId op' st =
       (None, tracing_logger ERROR [''[ReactNativeTracing] User Interaction Tracing is not working because no routing instrumentation is set.''] st)"
  "enableUserInteractionTracing (options st) \<Longrightarrow> routingInstrumentation (options st) \<Longrightarrow>
     falsy_string elementId \<Longrightarrow>
     startUserInteractionTransaction env elementId op' st =
       (None, tracing_logger LOG [''[ReactNativeTracing] User Interaction Tracing can not create transaction with undefined elementId.''] st)"
  "enableUserInteractionTracing (options st) \<Longrightarrow> routingInstrumentation (options st) \<Longrightarrow>
     \<not> falsy_string elementId \<Longrightarrow> falsy_string (currentRoute st) \<Longrightarrow>
     startUserInteractionTransaction env elementId op' st =
       (None, tracing_logger LOG [''[ReactNativeTracing] User Interaction Tracing can not create transaction without a current route.''] st)"
  by (simp_all add: startUserInteractionTransaction_def)

lemma interaction_unrelated_active:
  assumes "enableUserInteractionTracing (options st)" and "routingInstrumentation (options st)"
    and "\<not> falsy_string elementId" and "\<not> falsy_string (currentRoute st)"
    and "activeTransaction st = Some active"
    and "inflightTransaction st = None
         \<or> (\<exists>r inflight. inflightTransaction st = Some (r, inflight) \<and> spanId active \<noteq> spanId inflight)"
  shows "startUserInteractionTransaction env elementId op' st =
           (None, tracing_logger WARN
              [''[ReactNativeTracing] Did not create '' @ op' @ '' transaction because active transaction ''
                 @ text_of (description active) @ '' exists on the scope.''] st)"
  using assms by (auto simp add: startUserInteractionTransaction_def)

lemma interaction_started:
  assumes "enableUserInteractionTracing (options st)" and "routingInstrumentation (options st)"
    and "\<not> falsy_string elementId" and "\<not> falsy_string (currentRoute st)"
    and "activeTransaction st = None
         \<or> (\<exists>active r inflight. activeTransaction st = Some active
               \<and> inflightTransaction st = Some (r, inflight) \<and> spanId active = spanId inflight)"
  shows "fst (startUserInteractionTransaction env elementId op' st) = Some (new_span_id env)"
    and "tracing_logged (snd (startUserInteractionTransaction env elementId op' st)) =
           tracing_logged st @
             [(LOG, [''[ReactNativeTracing] User Interaction Tracing Created '' @ op'
                       @ '' transaction '' @ text_of (currentRoute st) @ ''.'' @ text_of elementId
                       @ ''.''])]"
proof -
  define st1 where "st1 =
    (case inflightTransaction st of
       None \<Rightarrow> st
     | Some (r, inflight) \<Rightarrow> (cancelIdleTimeout r st)\<lparr>inflightInteractionTransaction := None\<rparr>)"
  have l1: "tracing_logged st1 = tracing_logged st"
    unfolding st1_def by (simp add: tracing_logged_kept split: option.splits)
  define ctx where "ctx = \<lparr> ctx_name = text_of (currentRoute st) @ ''.'' @ text_of elementId,
                            ctx_op = Some op', ctx_data = JUndefined, ctx_trimEnd = True \<rparr>"
  obtain ref st2 where s: "startIdleTransaction env ctx st1 = (ref, st2)"
    by (cases "startIdleTransaction env ctx st1")
  from s startIdleTransaction_fresh(1) [of env ctx st1] tracing_logged_kept(1) [of env ctx st1] l1
  have r: "ref = new_span_id env" "tracing_logged st2 = tracing_logged st" by simp_all
  have e: "startUserInteractionTransaction env elementId op' st =
             (Some ref,
              tracing_logger LOG
                [''[ReactNativeTracing] User Interaction Tracing Created '' @ op'
                   @ '' transaction '' @ text_of (currentRoute st) @ ''.'' @ text_of elementId @ ''.'']
                (onTransactionStart env ref
                   (registerBeforeFinishCallback ref OnlySampleIfChildSpans
                      (registerBeforeFinishCallback ref InteractionFinished
                         (st2\<lparr>inflightInteractionTransaction := Some ref\<rparr>)))))"
    unfolding startUserInteractionTransaction_def st1_def [symmetric]
    using assms s
    by (auto simp add: Let_def ctx_def)
  show "fst (startUserInteractionTransaction env elementId op' st) = Some (new_span_id env)"
    unfolding e using r by simp
  show "tracing_logged (snd (startUserInteractionTransaction env elementId op' st)) =
           tracing_logged st @
             [(LOG, [''[ReactNativeTracing] User Interaction Tracing Created '' @ op'
                       @ '' transaction '' @ text_of (currentRoute st) @ ''.'' @ text_of elementId
                       @ ''.''])]"
    unfolding e using r by (simp add: tracing_logger_def tracing_logged_kept)
qed


text \<open>
  Claim C8 as stated fails: with user interaction tracing disabled (the default option)
  and an unrelated transaction active on the scope, the call returns \<open>undefined\<close> but logs
  only the "is disabled" message at level \<open>log\<close>; no warning is logged, because the option
  guards come before the check of the scope.
\<close>

theorem interaction_disabled_logs_no_warning:
  "activeTransaction (tracing_state_ex False 170) = Some (route_tx_ex [])
   \<and> inflightTransaction (tracing_state_ex False 170) = None
   \<and> fst (startUserInteractionTransaction tracing_env_ex (Some ''btn'') ''ui.action.touch''
            (tracing_state_ex False 170)) = None
   \<and> tracing_logged (snd (startUserInteractionTransaction tracing_env_ex (Some ''btn'') ''ui.action.touch''
            (tracing_state_ex False 170)))
       = [(LOG, [''[ReactNativeTracing] User Interaction Tracing is disabled.''])]"
  by (simp add: startUserInteractionTransaction_def tracing_state_ex_def tracing_options_ex_def
        activeTransaction_def inflightTransaction_def tracing_logger_def)

text \<open>
  Claim C8, amended. \<open>startUserInteractionTransaction\<close> checks four guards in this order,
  and at the first that applies it returns no transaction, and its only effect is one
  log entry: user interaction tracing disabled (level \<open>log\<close>), no routing instrumentation
  configured (level \<open>error\<close>), element identifier undefined or empty (level \<open>log\<close>), no
  current route known (level \<open>log\<close>); whether a transaction is active on the scope does
  not matter then, and no warning is logged. When none of the four guards applies and a
  transaction that is not the in-flight interaction transaction is active on the scope,
  it returns no transaction and its only effect is the warning logged. When none of the
  four guards applies and no such transaction is active, it returns a transaction and
  logs the creation at level \<open>log\<close>. So the warning is logged exactly when no guard
  applies and an unrelated transaction is active.
\<close>

theorem interaction_rejections:
  "(\<not> enableUserInteractionTracing (options st) \<longrightarrow>
      startUserInteractionTransaction env elementId op' st =
        (None, tracing_logger LOG [''[ReactNativeTracing] User Interaction Tracing is disabled.''] st))
   \<and> (enableUserInteractionTracing (options st) \<and> \<not> routingInstrumentation (options st) \<longrightarrow>
      startUserInteractionTransaction env elementId op' st =
        (None, tracing_logger ERROR [''[ReactNativeTracing] User Interaction Tracing is not working because no routing instrumentation is set.''] st))
   \<and> (enableUserInteractionTracing (options st) \<and> routingInstrumentation (options st)
        \<and> falsy_string elementId \<longrightarrow>
      startUserInteractionTransaction env elementId op' st =
        (None, tracing_logger LOG [''[ReactNativeTracing] User Interaction Tracing can not create transaction with undefined elementId.''] st))
   \<and> (enableUserInteractionTracing (options st) \<and> routingInstrumentation (options st)
        \<and> \<not> falsy_string elementId \<and> falsy_string (currentRoute st) \<longrightarrow>
      startUserInteractionTransaction env elementId op' st =
        (None, tracing_logger LOG [''[ReactNativeTracing] User Interaction Tracing can not create transaction without a current route.''] st))
   \<and> (\<forall>active.
        enableUserInteractionTracing (options st) \<and> routingInstrumentation (options st)
        \<and> \<not> falsy_string elementId \<and> \<not> falsy_string (currentRoute st)
        \<and> activeTransaction st = Some active
        \<and> (inflightTransaction st = None
           \<or> (\<exists>r inflight. inflightTransaction st = Some (r, inflight)
                 \<and> spanId active \<noteq> spanId inflight)) \<longrightarrow>
        startUserInteractionTransaction env elementId op' st =
          (None, tracing_logger WARN
             [''[ReactNativeTracing] Did not create '' @ op'
                @ '' transaction because active transaction ''
                @ text_of (description active) @ '' exists on the scope.''] st))
   \<and> (enableUserInteractionTracing (options st) \<and> routingInstrumentation (options st)
        \<and> \<not> falsy_string elementId \<and> \<not> falsy_string (currentRoute st)
        \<and> (activeTransaction st = None
           \<or> (\<exists>active r inflight. activeTransaction st = Some active
                 \<and> inflightTransaction st = Some (r, inflight)
                 \<and> spanId active = spanId inflight)) \<longrightarrow>
        fst (startUserInteractionTransaction env elementId op' st) = Some (new_span_id env)
        \<and> tracing_logged (snd (startUserInteractionTransaction env elementId op' st)) =
            tracing_logged st @
              [(LOG, [''[ReactNativeTracing] User Interaction Tracing Created '' @ op'
                        @ '' transaction '' @ text_of (currentRoute st) @ ''.''
                        @ text_of elementId @ ''.''])])"
  using interaction_guard_results [where st = st and env = env and elementId = elementId and op' = op']
    interaction_unrelated_active [where st = st and env = env and elementId = elementId and op' = op']
    interaction_started [where st = st and env = env and elementId = elementId and op' = op']
  by blast

theorem interaction_rejections_witness:
  "activeTransaction (tracing_state_ex True 170) = Some (route_tx_ex [])
   \<and> inflightTransaction (tracing_state_ex True 170) = None
   \<and> startUserInteractionTransaction tracing_env_ex (Some ''btn'') ''ui.action.touch''
        (tracing_state_ex True 170)
       = (None, (tracing_state_ex True 170)
                  \<lparr>tracing_logged := [(WARN, [''[ReactNativeTracing] Did not create ui.action.touch transaction because active transaction Home exists on the scope.''])]\<rparr>)
   \<and> startUserInteractionTransaction tracing_env_ex None ''ui.action.touch''
        (tracing_state_ex True 170)
       = (None, (tracing_state_ex True 170)
                  \<lparr>tracing_logged := [(LOG, [''[ReactNativeTracing] User Interaction Tracing can not create transaction with undefined elementId.''])]\<rparr>)
   \<and> startUserInteractionTransaction tracing_env_ex (Some ''btn'') ''ui.action.touch''
        (tracing_state_ex False 170)
       = (None, (tracing_state_ex False 170)
                  \<lparr>tracing_logged := [(LOG, [''[ReactNativeTracing] User Interaction Tracing is disabled.''])]\<rparr>)
   \<and> fst (startUserInteractionTransaction tracing_env_ex (Some ''btn'') ''ui.action.touch''
            ((tracing_state_ex True 170)\<lparr>scopeTransaction := None\<rparr>)) = Some ''s9''
   \<and> tracing_logged (snd (startUserInteractionTransaction tracing_env_ex (Some ''btn'') ''ui.action.touch''
            ((tracing_state_ex True 170)\<lparr>scopeTransaction := None\<rparr>)))
       = [(LOG, [''[ReactNativeTracing] User Interaction Tracing Created ui.action.touch transaction Home.btn.''])]"
proof -
  let ?on = "tracing_state_ex True 170"
  let ?off = "tracing_state_ex False 170"
  let ?free = "(tracing_state_ex True 170)\<lparr>scopeTransaction := None\<rparr>"
  have a: "activeTransaction ?on = Some (route_tx_ex [])"
    and i: "inflightTransaction ?on = None"
    and n: "activeTransaction ?free = None"
    by (simp_all add: tracing_state_ex_def activeTransaction_def inflightTransaction_def)
  have g: "enableUserInteractionTracing (options ?on)" "routingInstrumentation (options ?on)"
      "\<not> falsy_string (Some ''btn'')" "\<not> falsy_string (currentRoute ?on)"
      "falsy_string None" "\<not> enableUserInteractionTracing (options ?off)"
      "enableUserInteractionTracing (options ?free)" "routingInstrumentation (options ?free)"
      "\<not> falsy_string (currentRoute ?free)"
    by (simp_all add: tracing_state_ex_def tracing_options_ex_def falsy_string_def)
  have l: "tracing_logged ?on = []" "tracing_logged ?off = []" "tracing_logged ?free = []"
      "currentRoute ?free = Some ''Home''" "description (route_tx_ex []) = Some ''Home''"
      "new_span_id tracing_env_ex = ''s9''"
    by (simp_all add: tracing_state_ex_def route_tx_ex_def tracing_env_ex_def)
  note t1 = interaction_rejections [where st = "?on" and elementId = "Some ''btn''"
      and env = tracing_env_ex and op' = "''ui.action.touch''"]
  note t2 = interaction_rejections [where st = "?on" and elementId = None
      and env = tracing_env_ex and op' = "''ui.action.touch''"]
  note t3 = interaction_rejections [where st = "?off" and elementId = "Some ''btn''"
      and env = tracing_env_ex and op' = "''ui.action.touch''"]
  note t4 = interaction_rejections [where st = "?free" and elementId = "Some ''btn''"
      and env = tracing_env_ex and op' = "''ui.action.touch''"]
  from t1 [THEN conjunct2, THEN conjunct2, THEN conjunct2, THEN conjunct2, THEN conjunct1,
           rule_format, of "route_tx_ex []"] a i g
  have c1: "startUserInteractionTransaction tracing_env_ex (Some ''btn'') ''ui.action.touch'' ?on
       = (None, ?on\<lparr>tracing_logged := [(WARN, [''[ReactNativeTracing] Did not create ui.action.touch transaction because active transaction Home exists on the scope.''])]\<rparr>)"
    by (simp add: tracing_logger_def l text_of_def)
  from t2 [THEN conjunct2, THEN conjunct2, THEN conjunct1] g
  have c2: "startUserInteractionTransaction tracing_env_ex None ''ui.action.touch'' ?on
       = (None, ?on\<lparr>tracing_logged := [(LOG, [''[ReactNativeTracing] User Interaction Tracing can not create transaction with undefined elementId.''])]\<rparr>)"
    by (simp add: tracing_logger_def l)
  from t3 [THEN conjunct1] g
  have c3: "startUserInteractionTransaction tracing_env_ex (Some ''btn'') ''ui.action.touch'' ?off
       = (None, ?off\<lparr>tracing_logged := [(LOG, [''[ReactNativeTracing] User Interaction Tracing is disabled.''])]\<rparr>)"
    by (simp add: tracing_logger_def l)
  from t4 [THEN conjunct2, THEN conjunct2, THEN conjunct2, THEN conjunct2, THEN conjunct2] n g
  have c4: "fst (startUserInteractionTransaction tracing_env_ex (Some ''btn'') ''ui.action.touch'' ?free)
              = Some ''s9''"
    and c5: "tracing_logged (snd (startUserInteractionTransaction tracing_env_ex (Some ''btn'')
               ''ui.action.touch'' ?free))
       = [(LOG, [''[ReactNativeTracing] User Interaction Tracing Created ui.action.touch transaction Home.btn.''])]"
    by (simp_all add: l text_of_def)
  from a i c1 c2 c3 c4 c5 show ?thesis by blast
qed

subsection \<open>Properties of the fallback frame event emitter\<close>

lemma emitter_run_Nil: "emitter_run [] st = st"
  by (simp add: emitter_run_def)

lemma emitter_run_Cons: "emitter_run (e # es) st = emitter_run es (emitter_step e st)"
  by (simp add: emitter_run_def)

lemma emitter_run_append: "emitter_run (xs @ ys) st = emitter_run ys (emitter_run xs st)"
  by (simp add: emitter_run_def)

lemma elapsed_append: "elapsed (xs @ ys) = elapsed xs + elapsed ys"
  by (induction xs rule: elapsed.induct) simp_all

lemma frame_or_time_cycle_event: "list_all frame_or_time es \<Longrightarrow> list_all cycle_event es"
proof (induction es)
  case Nil
  show ?case by simp
next
  case (Cons e es)
  then show ?case by (cases e) simp_all
qed

lemma earliest_in_set: "earliest ts = Some t \<Longrightarrow> t \<in> set ts"
  by (induction ts arbitrary: t) (auto split: option.splits if_splits)

lemma step_cycle_event:
  assumes "cycle_event e" and "\<forall>t \<in> set (timers st). clock_ms st + elapsed [e] < fst t"
  shows "NativeEmitterCalled (emitter_step e st) =
           (NativeEmitterCalled st \<or> (isListening st \<and> 0 < listeners st \<and> is_frame e))"
    and "isListening (emitter_step e st) = isListening st"
    and "timers (emitter_step e st) = timers st"
    and "listeners (emitter_step e st) = listeners st"
    and "pendingNativeCalls (emitter_step e st) = pendingNativeCalls st"
    and "pendingAnimationFrames (emitter_step e st) = pendingAnimationFrames st"
    and "fallbacks (emitter_step e st) = fallbacks st"
    and "clock_ms (emitter_step e st) = clock_ms st + elapsed [e]"
proof -
  have fire: "emitter_step TimerFire st = st"
    if "\<forall>t \<in> set (timers st). clock_ms st < fst t"
  proof (cases "earliest (timers st)")
    case None
    then show ?thesis by (simp add: emitter_step_def)
  next
    case (Some t)
    from earliest_in_set [OF Some] that have "clock_ms st < fst t" by blast
    with Some show ?thesis by (cases t) (simp add: emitter_step_def)
  qed
  show "NativeEmitterCalled (emitter_step e st) =
           (NativeEmitterCalled st \<or> (isListening st \<and> 0 < listeners st \<and> is_frame e))"
    and "isListening (emitter_step e st) = isListening st"
    and "timers (emitter_step e st) = timers st"
    and "listeners (emitter_step e st) = listeners st"
    and "pendingNativeCalls (emitter_step e st) = pendingNativeCalls st"
    and "pendingAnimationFrames (emitter_step e st) = pendingAnimationFrames st"
    and "fallbacks (emitter_step e st) = fallbacks st"
    and "clock_ms (emitter_step e st) = clock_ms st + elapsed [e]"
    using assms fire
    by (cases e; simp add: emitter_step_def emit_NewFrameEvent_def fallbacks_def Let_def)+
qed

lemma run_cycle_events:
  assumes "list_all cycle_event es"
    and "\<forall>t \<in> set (timers st). clock_ms st + elapsed es < fst t"
  shows "NativeEmitterCalled (emitter_run es st) =
           (NativeEmitterCalled st \<or> (isListening st \<and> 0 < listeners st \<and> list_ex is_frame es))
       \<and> isListening (emitter_run es st) = isListening st
       \<and> timers (emitter_run es st) = timers st
       \<and> listeners (emitter_run es st) = listeners st
       \<and> pendingNativeCalls (emitter_run es st) = pendingNativeCalls st
       \<and> pendingAnimationFrames (emitter_run es st) = pendingAnimationFrames st
       \<and> fallbacks (emitter_run es st) = fallbacks st
       \<and> clock_ms (emitter_run es st) = clock_ms st + elapsed es"
  using assms
proof (induction es arbitrary: st)
  case Nil
  then show ?case by (simp add: emitter_run_Nil)
next
  case (Cons e es)
  from Cons.prems(1) have e: "cycle_event e" and es: "list_all cycle_event es" by simp_all
  have el: "elapsed (e # es) = elapsed [e] + elapsed es"
    using elapsed_append [of "[e]" es] by simp
  from Cons.prems(2) el have d: "\<forall>t \<in> set (timers st). clock_ms st + elapsed [e] < fst t"
    by auto
  note s = step_cycle_event [OF e d]
  from Cons.prems(2) el s(3,8)
  have d': "\<forall>t \<in> set (timers (emitter_step e st)).
              clock_ms (emitter_step e st) + elapsed es < fst t"
    by (simp add: add.assoc)
  from Cons.IH [OF es d'] s el show ?case
    by (auto simp add: emitter_run_Cons)
qed


lemma run_frames_and_time:
  assumes "list_all frame_or_time es"
  shows "NativeEmitterCalled (emitter_run es st) =
           (NativeEmitterCalled st \<or> (isListening st \<and> 0 < listeners st \<and> list_ex is_frame es))
       \<and> isListening (emitter_run es st) = isListening st
       \<and> timers (emitter_run es st) = timers st
       \<and> listeners (emitter_run es st) = listeners st
       \<and> pendingNativeCalls (emitter_run es st) = pendingNativeCalls st
       \<and> pendingAnimationFrames (emitter_run es st) = pendingAnimationFrames st
       \<and> fallbacks (emitter_run es st) = fallbacks st
       \<and> clock_ms (emitter_run es st) = clock_ms st + elapsed es"
  using assms
proof (induction es arbitrary: st)
  case Nil
  then show ?case by (simp add: emitter_run_Nil)
next
  case (Cons e es)
  from Cons.prems have e: "frame_or_time e" and es: "list_all frame_or_time es" by simp_all
  from e have s:
    "NativeEmitterCalled (emitter_step e st) =
       (NativeEmitterCalled st \<or> (isListening st \<and> 0 < listeners st \<and> is_frame e))"
    "isListening (emitter_step e st) = isListening st"
    "timers (emitter_step e st) = timers st"
    "listeners (emitter_step e st) = listeners st"
    "pendingNativeCalls (emitter_step e st) = pendingNativeCalls st"
    "pendingAnimationFrames (emitter_step e st) = pendingAnimationFrames st"
    "fallbacks (emitter_step e st) = fallbacks st"
    "clock_ms (emitter_step e st) = clock_ms st + elapsed [e]"
    by (cases e; simp add: emitter_step_def emit_NewFrameEvent_def fallbacks_def Let_def)+
  have el: "elapsed (e # es) = elapsed [e] + elapsed es"
    using elapsed_append [of "[e]" es] by simp
  from Cons.IH [OF es, of "emitter_step e st"] s el show ?case
    by (auto simp add: emitter_run_Cons)
qed

lemma settled_forever:
  assumes "settled st" and "list_all cycle_event es"
  shows "fallbacks (emitter_run es st) = fallbacks st" and "settled (emitter_run es st)"
proof -
  from assms(1) have "\<forall>t \<in> set (timers st). clock_ms st + elapsed es < fst t"
    by (simp add: settled_def)
  from run_cycle_events [OF assms(2) this] assms(1)
  show "fallbacks (emitter_run es st) = fallbacks st" and "settled (emitter_run es st)"
    by (simp_all add: settled_def)
qed

lemma armed_waiting:
  assumes "armed due cl st"
    and "list_all cycle_event early" and "clock_ms st + elapsed early < due"
    and "list_all frame_or_time late"
  shows "fallbacks (emitter_run (early @ late) st) = fallbacks st"
    and "timers (emitter_run (early @ late) st) = [(due, cl)]"
    and "NativeEmitterCalled (emitter_run (early @ late) st) =
           (0 < listeners st \<and> list_ex is_frame (early @ late))"
    and "pendingNativeCalls (emitter_run (early @ late) st) = 0"
    and "pendingAnimationFrames (emitter_run (early @ late) st) = 0"
    and "clock_ms (emitter_run (early @ late) st) = clock_ms st + elapsed (early @ late)"
proof -
  from assms(1,3) have d: "\<forall>t \<in> set (timers st). clock_ms st + elapsed early < fst t"
    by (simp add: armed_def)
  note a = run_cycle_events [OF assms(2) d]
  note b = run_frames_and_time [OF assms(4), of "emitter_run early st"]
  from a b assms(1)
  show "fallbacks (emitter_run (early @ late) st) = fallbacks st"
    and "timers (emitter_run (early @ late) st) = [(due, cl)]"
    and "NativeEmitterCalled (emitter_run (early @ late) st) =
           (0 < listeners st \<and> list_ex is_frame (early @ late))"
    and "pendingNativeCalls (emitter_run (early @ late) st) = 0"
    and "pendingAnimationFrames (emitter_run (early @ late) st) = 0"
    and "clock_ms (emitter_run (early @ late) st) = clock_ms st + elapsed (early @ late)"
    by (auto simp add: emitter_run_append armed_def elapsed_append)
qed

lemma armed_fires:
  assumes "armed due cl st"
    and "list_all cycle_event early" and "clock_ms st + elapsed early < due"
    and "list_all frame_or_time late" and "due \<le> clock_ms st + elapsed (early @ late)"
  shows "fallbacks (emitter_run (early @ late @ [TimerFire]) st) =
           fallbacks st @ (if 0 < listeners st \<and> list_ex is_frame (early @ late) then []
                           else [\<lparr>newFrameTimestampInSeconds = fallbackSeconds cl, isFallback = Some True\<rparr>])"
    and "settled (emitter_run (early @ late @ [TimerFire]) st)"
proof -
  let ?t = "emitter_run (early @ late) st"
  note w = armed_waiting [OF assms(1-4)]
  from assms(1) have a: "firstAttemptCompleted cl" by (simp add: armed_def)
  from w(6) assms(5) have due: "due \<le> clock_ms ?t" by simp
  have e: "emitter_run (early @ late @ [TimerFire]) st =
             checkNativeResponse cl (?t\<lparr>timers := []\<rparr>)"
    using emitter_run_append [of "early @ late" "[TimerFire]" st] w(2) due
    by (simp add: emitter_run_Cons emitter_run_Nil emitter_step_def)
  show "fallbacks (emitter_run (early @ late @ [TimerFire]) st) =
           fallbacks st @ (if 0 < listeners st \<and> list_ex is_frame (early @ late) then []
                           else [\<lparr>newFrameTimestampInSeconds = fallbackSeconds cl, isFallback = Some True\<rparr>])"
    unfolding e using w(1,3) a
    by (simp add: checkNativeResponse_def emit_NewFrameEvent_def fallbacks_def Let_def)
  show "settled (emitter_run (early @ late @ [TimerFire]) st)"
    unfolding e using w(3,4,5) a
    by (simp add: checkNativeResponse_def emit_NewFrameEvent_def settled_def Let_def)
qed


lemma started_then_events:
  assumes "quiescent st" and "list_all cycle_event es"
  shows "NativeEmitterCalled (emitter_run (StartListenerAsync # es) st) =
           (0 < listeners st \<and> list_ex is_frame es)"
    and "isListening (emitter_run (StartListenerAsync # es) st)"
    and "timers (emitter_run (StartListenerAsync # es) st) = []"
    and "listeners (emitter_run (StartListenerAsync # es) st) = listeners st"
    and "pendingNativeCalls (emitter_run (StartListenerAsync # es) st) = 1"
    and "pendingAnimationFrames (emitter_run (StartListenerAsync # es) st) = 0"
    and "fallbacks (emitter_run (StartListenerAsync # es) st) = fallbacks st"
proof -
  let ?s = "emitter_step StartListenerAsync st"
  from assms(1) have d: "\<forall>t \<in> set (timers ?s). clock_ms ?s + elapsed es < fst t"
    by (simp add: quiescent_def emitter_step_def startListenerAsync_def)
  from run_cycle_events [OF assms(2) d] assms(1)
  show "NativeEmitterCalled (emitter_run (StartListenerAsync # es) st) =
           (0 < listeners st \<and> list_ex is_frame es)"
    and "isListening (emitter_run (StartListenerAsync # es) st)"
    and "timers (emitter_run (StartListenerAsync # es) st) = []"
    and "listeners (emitter_run (StartListenerAsync # es) st) = listeners st"
    and "pendingNativeCalls (emitter_run (StartListenerAsync # es) st) = 1"
    and "pendingAnimationFrames (emitter_run (StartListenerAsync # es) st) = 0"
    and "fallbacks (emitter_run (StartListenerAsync # es) st) = fallbacks st"
    by (simp_all add: emitter_run_Cons quiescent_def emitter_step_def startListenerAsync_def
          fallbacks_def)
qed

lemma native_timestamp_known:
  assumes "quiescent st" and "list_all cycle_event es" and "ts \<noteq> 0"
  shows "fallbacks (emitter_run (StartListenerAsync # es @ [NativeResolved (Some ts)]) st) = fallbacks st"
    and "listeners (emitter_run (StartListenerAsync # es @ [NativeResolved (Some ts)]) st) = listeners st"
    and "0 < listeners st \<and> list_ex is_frame es \<Longrightarrow>
           settled (emitter_run (StartListenerAsync # es @ [NativeResolved (Some ts)]) st)"
    and "\<not> (0 < listeners st \<and> list_ex is_frame es) \<Longrightarrow>
           armed (clock_ms (emitter_run (StartListenerAsync # es @ [NativeResolved (Some ts)]) st) + 3000)
             \<lparr>fallbackSeconds = ts, origin = ''Native'', firstAttemptCompleted = True\<rparr>
             (emitter_run (StartListenerAsync # es @ [NativeResolved (Some ts)]) st)"
proof -
  let ?s = "emitter_run (StartListenerAsync # es) st"
  note s = started_then_events [OF assms(1,2)]
  have e: "emitter_run (StartListenerAsync # es @ [NativeResolved (Some ts)]) st =
             emitter_step (NativeResolved (Some ts)) ?s"
    using emitter_run_append [of "StartListenerAsync # es" "[NativeResolved (Some ts)]" st]
    by (simp add: emitter_run_Cons emitter_run_Nil)
  show "fallbacks (emitter_run (StartListenerAsync # es @ [NativeResolved (Some ts)]) st) = fallbacks st"
    unfolding e using s assms(3)
    by (simp add: emitter_step_def nativeResolved_def waitForNativeResponseOrFallback_def
          checkNativeResponse_def fallbacks_def)
  show "listeners (emitter_run (StartListenerAsync # es @ [NativeResolved (Some ts)]) st) = listeners st"
    unfolding e using s assms(3)
    by (simp add: emitter_step_def nativeResolved_def waitForNativeResponseOrFallback_def
          checkNativeResponse_def)
  show "settled (emitter_run (StartListenerAsync # es @ [NativeResolved (Some ts)]) st)"
    if "0 < listeners st \<and> list_ex is_frame es"
    unfolding e using s assms(3) that
    by (simp add: emitter_step_def nativeResolved_def waitForNativeResponseOrFallback_def
          checkNativeResponse_def settled_def)
  show "armed (clock_ms (emitter_run (StartListenerAsync # es @ [NativeResolved (Some ts)]) st) + 3000)
          \<lparr>fallbackSeconds = ts, origin = ''Native'', firstAttemptCompleted = True\<rparr>
          (emitter_run (StartListenerAsync # es @ [NativeResolved (Some ts)]) st)"
    if "\<not> (0 < listeners st \<and> list_ex is_frame es)"
    unfolding e using s assms(3) that
    by (simp add: emitter_step_def nativeResolved_def waitForNativeResponseOrFallback_def
          checkNativeResponse_def armed_def)
qed

lemma js_timestamp_known:
  assumes "quiescent st" and "list_all cycle_event es1" and "list_all cycle_event es2"
    and "r = NativeResolved None \<or> r = NativeResolved (Some 0) \<or> r = NativeRejected"
  shows "fallbacks (emitter_run (StartListenerAsync # es1 @ [r] @ es2 @ [AnimationFrame ts]) st)
           = fallbacks st"
    and "listeners (emitter_run (StartListenerAsync # es1 @ [r] @ es2 @ [AnimationFrame ts]) st)
           = listeners st"
    and "0 < listeners st \<and> list_ex is_frame (es1 @ es2) \<Longrightarrow>
           settled (emitter_run (StartListenerAsync # es1 @ [r] @ es2 @ [AnimationFrame ts]) st)"
    and "\<not> (0 < listeners st \<and> list_ex is_frame (es1 @ es2)) \<Longrightarrow>
           armed (clock_ms (emitter_run (StartListenerAsync # es1 @ [r] @ es2 @ [AnimationFrame ts]) st)
                    + 3000)
             \<lparr>fallbackSeconds = ts, origin = ''JavaScript'', firstAttemptCompleted = True\<rparr>
             (emitter_run (StartListenerAsync # es1 @ [r] @ es2 @ [AnimationFrame ts]) st)"
proof -
  let ?s1 = "emitter_run (StartListenerAsync # es1) st"
  let ?s2 = "emitter_step r ?s1"
  let ?s3 = "emitter_run es2 ?s2"
  note s = started_then_events [OF assms(1,2)]
  from s assms(4)
  have s2: "NativeEmitterCalled ?s2 = (0 < listeners st \<and> list_ex is_frame es1)"
    "isListening ?s2" "timers ?s2 = []" "listeners ?s2 = listeners st"
    "pendingNativeCalls ?s2 = 0" "pendingAnimationFrames ?s2 = 1" "fallbacks ?s2 = fallbacks st"
    by (auto simp add: emitter_step_def nativeResolved_def nativeRejected_def
          defaultFallbackEventEmitter_def fallbacks_def)
  from s2(3) have d: "\<forall>t \<in> set (timers ?s2). clock_ms ?s2 + elapsed es2 < fst t" by simp
  from run_cycle_events [OF assms(3) d] s2
  have s3: "NativeEmitterCalled ?s3 = (0 < listeners st \<and> list_ex is_frame (es1 @ es2))"
    "isListening ?s3" "timers ?s3 = []" "listeners ?s3 = listeners st"
    "pendingNativeCalls ?s3 = 0" "pendingAnimationFrames ?s3 = 1" "fallbacks ?s3 = fallbacks st"
    by auto
  have e: "emitter_run (StartListenerAsync # es1 @ [r] @ es2 @ [AnimationFrame ts]) st =
             emitter_step (AnimationFrame ts) ?s3"
    using emitter_run_append [of "StartListenerAsync # es1" "[r] @ es2 @ [AnimationFrame ts]" st]
      emitter_run_append [of es2 "[AnimationFrame ts]" ?s2]
    by (simp add: emitter_run_Cons emitter_run_Nil)
  show "fallbacks (emitter_run (StartListenerAsync # es1 @ [r] @ es2 @ [AnimationFrame ts]) st)
           = fallbacks st"
    unfolding e using s3
    by (simp add: emitter_step_def animationFrameCallback_def waitForNativeResponseOrFallback_def
          checkNativeResponse_def fallbacks_def)
  show "listeners (emitter_run (StartListenerAsync # es1 @ [r] @ es2 @ [AnimationFrame ts]) st)
           = listeners st"
    unfolding e using s3
    by (simp add: emitter_step_def animationFrameCallback_def waitForNativeResponseOrFallback_def
          checkNativeResponse_def)
  show "settled (emitter_run (StartListenerAsync # es1 @ [r] @ es2 @ [AnimationFrame ts]) st)"
    if "0 < listeners st \<and> list_ex is_frame (es1 @ es2)"
    unfolding e using s3 that
    by (simp add: emitter_step_def animationFrameCallback_def settled_def)
  show "armed (clock_ms (emitter_run (StartListenerAsync # es1 @ [r] @ es2 @ [AnimationFrame ts]) st)
                 + 3000)
          \<lparr>fallbackSeconds = ts, origin = ''JavaScript'', firstAttemptCompleted = True\<rparr>
          (emitter_run (StartListenerAsync # es1 @ [r] @ es2 @ [AnimationFrame ts]) st)"
    if "\<not> (0 < listeners st \<and> list_ex is_frame (es1 @ es2))"
    unfolding e using s3 that
    by (simp add: emitter_step_def animationFrameCallback_def waitForNativeResponseOrFallback_def
          checkNativeResponse_def armed_def)
qed

text \<open>From the moment the timestamp is known: what is emitted while the timer waits, and
  what once it has fired.\<close>

lemma cycle_after_timestamp:
  assumes f: "fallbacks s = fallbacks st" and l: "listeners s = listeners st"
    and se: "received \<Longrightarrow> settled s"
    and ar: "\<not> received \<Longrightarrow> armed (clock_ms s + 3000) cl s"
    and ts: "fallbackSeconds cl = ts"
    and early: "list_all cycle_event early" "elapsed early < 3000"
    and late: "list_all frame_or_time late"
    and after: "list_all cycle_event after"
  shows "timers s = (if received then [] else [(clock_ms s + 3000, cl)])"
    and "fallbacks (emitter_run (early @ late) s) = fallbacks st"
    and "3000 \<le> elapsed (early @ late) \<Longrightarrow>
           fallbacks (emitter_run (early @ late @ [TimerFire] @ after) s) =
             fallbacks st @ (if received \<or> (0 < listeners st \<and> list_ex is_frame (early @ late))
                             then []
                             else [\<lparr>newFrameTimestampInSeconds = ts, isFallback = Some True\<rparr>])
           \<and> quiescent (emitter_run (early @ late @ [TimerFire] @ after) s)
           \<and> \<not> isListening (emitter_run (early @ late @ [TimerFire] @ after) s)"
proof -
  have ce: "list_all cycle_event (early @ late)"
    and ca: "list_all cycle_event (early @ late @ [TimerFire] @ after)"
    using early(1) after frame_or_time_cycle_event [OF late] by simp_all
  show "timers s = (if received then [] else [(clock_ms s + 3000, cl)])"
    using se ar by (cases received) (simp_all add: settled_def armed_def)
  show "fallbacks (emitter_run (early @ late) s) = fallbacks st"
  proof (cases received)
    case True
    from settled_forever(1) [OF se [OF True] ce] f show ?thesis by simp
  next
    case False
    from armed_waiting(1) [OF ar [OF False] early(1) _ late] early(2) f show ?thesis by simp
  qed
  show "fallbacks (emitter_run (early @ late @ [TimerFire] @ after) s) =
             fallbacks st @ (if received \<or> (0 < listeners st \<and> list_ex is_frame (early @ late))
                             then []
                             else [\<lparr>newFrameTimestampInSeconds = ts, isFallback = Some True\<rparr>])
           \<and> quiescent (emitter_run (early @ late @ [TimerFire] @ after) s)
           \<and> \<not> isListening (emitter_run (early @ late @ [TimerFire] @ after) s)"
    if due: "3000 \<le> elapsed (early @ late)"
  proof (cases received)
    case True
    from settled_forever [OF se [OF True] ca] f True show ?thesis
      by (simp add: settled_def quiescent_def)
  next
    case False
    let ?t = "emitter_run (early @ late @ [TimerFire]) s"
    from early(2) have e: "clock_ms s + elapsed early < clock_ms s + 3000" by simp
    from due have d: "clock_ms s + 3000 \<le> clock_ms s + elapsed (early @ late)" by simp
    note fire = armed_fires [OF ar [OF False] early(1) e late d]
    have r: "emitter_run (early @ late @ [TimerFire] @ after) s = emitter_run after ?t"
      using emitter_run_append [of "early @ late @ [TimerFire]" after s] by simp
    from settled_forever [OF fire(2) after] fire(1) f l ts False show ?thesis
      unfolding r by (simp add: settled_def quiescent_def)
  qed
qed


text \<open>
  Claim C3 as stated fails for overlapping cycles. A first cycle obtains the native
  timestamp 10 and arms its timer; the confirming native frame event arrives one second
  later and sets the flag; a second \<open>startListenerAsync\<close> follows, and its immediate check
  consumes the flag. When the first cycle's timer fires at 3000 ms the flag is clear, so
  the fallback for the first cycle (timestamp 10) is emitted although its confirming event
  had arrived two seconds before.
\<close>

theorem overlapping_cycles_fallback_despite_confirmation:
  "NativeEmitterCalled
     (emitter_run [StartListenerAsync, NativeResolved (Some 10), Elapse 1000, NativeNewFrame 11]
        emitter_initial)
   \<and> delivered
       (emitter_run [StartListenerAsync, NativeResolved (Some 10), Elapse 1000, NativeNewFrame 11,
                     Elapse 1000, StartListenerAsync, NativeResolved (Some 20), Elapse 1000, TimerFire]
          emitter_initial)
       = [\<lparr>newFrameTimestampInSeconds = 11, isFallback = None\<rparr>,
          \<lparr>newFrameTimestampInSeconds = 10, isFallback = Some True\<rparr>]"
  by (simp add: emitter_run_def emitter_step_def emitter_initial_def startListenerAsync_def
        nativeResolved_def waitForNativeResponseOrFallback_def checkNativeResponse_def
        emit_NewFrameEvent_def Let_def)

text \<open>
  Claim C3, amended: for every \<open>startListenerAsync\<close> cycle that starts with nothing
  pending from an earlier cycle (\<open>quiescent\<close>) and that no other \<open>startListenerAsync\<close> call
  overlaps: all that occurs besides the cycle's own steps are native frame events, time
  passing and the event loop looking for a due timer, in any order and number. The
  cycle's steps \<open>p\<close> up to the timestamp \<open>ts\<close> are either the start and the native call
  resolving with a timestamp, or the start, the native call resolving with none (or being
  rejected) and the next animation frame. A confirming event counts as received when a
  native frame event occurs and \<open>initAsync\<close> has registered the listener.
  \<^item> At the moment the timestamp is known the flag is checked: nothing has been emitted;
    if a confirming event has been received no timer is set, and otherwise exactly one
    timer is set, due exactly 3000 ms later.
  \<^item> Whatever occurs before 3000 ms have passed (\<open>early\<close>, attempts to fire a timer
    included) and whatever frame events and time follow (\<open>late\<close>), no fallback is emitted
    as long as the timer has not fired.
  \<^item> Once 3000 ms or more have passed and the timer fires, exactly one fallback event
    with the timestamp \<open>ts\<close> and \<open>isFallback = true\<close> has been emitted if no confirming
    event had been received before the timer fired, and none if one had been received, at
    whatever moment of the cycle; whatever follows (\<open>after\<close>) emits no further fallback,
    nothing is pending and listening is off.
\<close>

theorem fallback_once_per_isolated_cycle:
  assumes "quiescent st"
    and "(p = StartListenerAsync # es1 @ [NativeResolved (Some ts)] \<and> ts \<noteq> 0 \<and> es2 = []
            \<and> orig = ''Native'')
         \<or> (p = StartListenerAsync # es1 @ [r] @ es2 @ [AnimationFrame ts]
            \<and> (r = NativeResolved None \<or> r = NativeResolved (Some 0) \<or> r = NativeRejected)
            \<and> orig = ''JavaScript'')"
    and "list_all cycle_event es1" and "list_all cycle_event es2"
    and "list_all cycle_event early" and "elapsed early < 3000"
    and "list_all frame_or_time late"
    and "list_all cycle_event after"
  shows "fallbacks (emitter_run p st) = fallbacks st
       \<and> timers (emitter_run p st) =
           (if 0 < listeners st \<and> list_ex is_frame (es1 @ es2) then []
            else [(clock_ms (emitter_run p st) + 3000,
                   \<lparr>fallbackSeconds = ts, origin = orig, firstAttemptCompleted = True\<rparr>)])
       \<and> fallbacks (emitter_run (p @ early @ late) st) = fallbacks st
       \<and> (3000 \<le> elapsed (early @ late) \<longrightarrow>
            fallbacks (emitter_run (p @ early @ late @ [TimerFire] @ after) st) =
              fallbacks st @
                (if 0 < listeners st \<and> list_ex is_frame (es1 @ es2 @ early @ late) then []
                 else [\<lparr>newFrameTimestampInSeconds = ts, isFallback = Some True\<rparr>])
            \<and> quiescent (emitter_run (p @ early @ late @ [TimerFire] @ after) st)
            \<and> \<not> isListening (emitter_run (p @ early @ late @ [TimerFire] @ after) st))"
proof -
  let ?s = "emitter_run p st"
  let ?cl = "\<lparr>fallbackSeconds = ts, origin = orig, firstAttemptCompleted = True\<rparr>"
  let ?received = "0 < listeners st \<and> list_ex is_frame (es1 @ es2)"
  have k: "fallbacks ?s = fallbacks st \<and> listeners ?s = listeners st
           \<and> (?received \<longrightarrow> settled ?s)
           \<and> (\<not> ?received \<longrightarrow> armed (clock_ms ?s + 3000) ?cl ?s)"
    using assms(2)
  proof
    assume a: "p = StartListenerAsync # es1 @ [NativeResolved (Some ts)] \<and> ts \<noteq> 0 \<and> es2 = []
                 \<and> orig = ''Native''"
    with native_timestamp_known [OF assms(1,3), of ts] show ?thesis by simp
  next
    assume a: "p = StartListenerAsync # es1 @ [r] @ es2 @ [AnimationFrame ts]
                 \<and> (r = NativeResolved None \<or> r = NativeResolved (Some 0) \<or> r = NativeRejected)
                 \<and> orig = ''JavaScript''"
    then have r: "r = NativeResolved None \<or> r = NativeResolved (Some 0) \<or> r = NativeRejected"
      by simp
    from js_timestamp_known [OF assms(1,3,4) r, of ts] a show ?thesis by simp
  qed
  then have f: "fallbacks ?s = fallbacks st" and l: "listeners ?s = listeners st"
    and se: "?received \<Longrightarrow> settled ?s"
    and ar: "\<not> ?received \<Longrightarrow> armed (clock_ms ?s + 3000) ?cl ?s"
    by blast+
  have ts: "fallbackSeconds ?cl = ts" by simp
  note c = cycle_after_timestamp
      [where received = "0 < listeners st \<and> list_ex is_frame (es1 @ es2)",
       OF f l se ar ts assms(5,6,7,8)]
  have r1: "emitter_run (p @ early @ late) st = emitter_run (early @ late) ?s"
    and r2: "emitter_run (p @ early @ late @ [TimerFire] @ after) st =
             emitter_run (early @ late @ [TimerFire] @ after) ?s"
    by (simp_all add: emitter_run_append)
  have i: "(?received \<or> (0 < listeners st \<and> list_ex is_frame (early @ late))) =
             (0 < listeners st \<and> list_ex is_frame (es1 @ es2 @ early @ late))"
    by auto
  from f c(1) c(2) c(3) show ?thesis
    unfolding r1 r2 i by simp
qed

theorem fallback_once_per_isolated_cycle_witness:
  "quiescent emitter_initial
   \<and> elapsed [Elapse 1000, NativeNewFrame 11] < 3000
   \<and> 3000 \<le> elapsed ([Elapse 1000, NativeNewFrame 11] @ [Elapse 2000])
   \<and> fallbacks (emitter_run [StartListenerAsync, NativeResolved (Some 10), Elapse 1000,
                              NativeNewFrame 11, Elapse 2000, TimerFire] emitter_initial)
       = []
   \<and> fallbacks (emitter_run [StartListenerAsync, NativeResolved (Some 10), Elapse 3500, TimerFire,
                              Elapse 5000, TimerFire] emitter_initial)
       = [\<lparr>newFrameTimestampInSeconds = 10, isFallback = Some True\<rparr>]
   \<and> fallbacks (emitter_run [StartListenerAsync, NativeResolved (Some 10), Elapse 2999, TimerFire]
                  emitter_initial)
       = []
   \<and> timers (emitter_run [StartListenerAsync, NativeResolved None, AnimationFrame 7] emitter_initial)
       = [(3000, \<lparr>fallbackSeconds = 7, origin = ''JavaScript'', firstAttemptCompleted = True\<rparr>)]
   \<and> fallbacks (emitter_run [StartListenerAsync, NativeResolved None, AnimationFrame 7,
                              Elapse 3000, TimerFire] emitter_initial)
       = [\<lparr>newFrameTimestampInSeconds = 7, isFallback = Some True\<rparr>]"
proof -
  have q: "quiescent emitter_initial" by (simp add: quiescent_def emitter_initial_def)
  have i: "fallbacks emitter_initial = []" "listeners emitter_initial = 1"
    by (simp_all add: fallbacks_def emitter_initial_def)
  have native: "([StartListenerAsync, NativeResolved (Some 10)]
                   = StartListenerAsync # [] @ [NativeResolved (Some 10)] \<and> (10::rat) \<noteq> 0
                   \<and> ([]::emitter_event list) = [] \<and> ''Native'' = ''Native'')
                \<or> ([StartListenerAsync, NativeResolved (Some 10)]
                      = StartListenerAsync # [] @ [NativeResolved None] @ [] @ [AnimationFrame 10]
                   \<and> (NativeResolved None = NativeResolved None
                       \<or> NativeResolved None = NativeResolved (Some 0)
                       \<or> NativeResolved None = NativeRejected)
                   \<and> ''Native'' = ''JavaScript'')"
    by simp
  have js: "([StartListenerAsync, NativeResolved None, AnimationFrame 7]
                   = StartListenerAsync # [] @ [NativeResolved (Some 7)] \<and> (7::rat) \<noteq> 0
                   \<and> ([]::emitter_event list) = [] \<and> ''JavaScript'' = ''Native'')
                \<or> ([StartListenerAsync, NativeResolved None, AnimationFrame 7]
                      = StartListenerAsync # [] @ [NativeResolved None] @ [] @ [AnimationFrame 7]
                   \<and> (NativeResolved None = NativeResolved None
                       \<or> NativeResolved None = NativeResolved (Some 0)
                       \<or> NativeResolved None = NativeRejected)
                   \<and> ''JavaScript'' = ''JavaScript'')"
    by simp
  have n: "list_all cycle_event []" "list_all frame_or_time []" by simp_all
  have e1: "list_all cycle_event [Elapse 1000, NativeNewFrame 11]"
    and e1': "elapsed [Elapse 1000, NativeNewFrame 11] < 3000"
    and l1: "list_all frame_or_time [Elapse 2000]"
    and d1: "3000 \<le> elapsed ([Elapse 1000, NativeNewFrame 11] @ [Elapse 2000])"
    by simp_all
  have e0: "elapsed [] < 3000" by simp
  have l2: "list_all frame_or_time [Elapse 3500]"
    and a2: "list_all cycle_event [Elapse 5000, TimerFire]"
    by simp_all
  have e3: "list_all cycle_event [Elapse 2999, TimerFire]"
    and e3': "elapsed [Elapse 2999, TimerFire] < 3000"
    by simp_all
  have l4: "list_all frame_or_time [Elapse 3000]" by simp
  from fallback_once_per_isolated_cycle [OF q native n(1) n(1) e1 e1' l1 n(1)] i
  have c1: "fallbacks (emitter_run [StartListenerAsync, NativeResolved (Some 10), Elapse 1000,
                              NativeNewFrame 11, Elapse 2000, TimerFire] emitter_initial) = []"
    by simp
  from fallback_once_per_isolated_cycle [OF q native n(1) n(1) n(1) e0 l2 a2] i
  have c2: "fallbacks (emitter_run [StartListenerAsync, NativeResolved (Some 10), Elapse 3500, TimerFire,
                              Elapse 5000, TimerFire] emitter_initial)
       = [\<lparr>newFrameTimestampInSeconds = 10, isFallback = Some True\<rparr>]"
    by simp
  from fallback_once_per_isolated_cycle [OF q native n(1) n(1) e3 e3' n(2) n(1)] i
  have c3: "fallbacks (emitter_run [StartListenerAsync, NativeResolved (Some 10), Elapse 2999, TimerFire]
                  emitter_initial) = []"
    by simp
  have k: "clock_ms (emitter_run [StartListenerAsync, NativeResolved None, AnimationFrame 7]
             emitter_initial) = 0"
    by (simp add: emitter_run_def emitter_step_def emitter_initial_def startListenerAsync_def
          nativeResolved_def defaultFallbackEventEmitter_def animationFrameCallback_def
          waitForNativeResponseOrFallback_def checkNativeResponse_def)
  note t4 = fallback_once_per_isolated_cycle [OF q js n(1) n(1) n(1) e0 l4 n(1)]
  from t4 [THEN conjunct2, THEN conjunct1] k
  have c4: "timers (emitter_run [StartListenerAsync, NativeResolved None, AnimationFrame 7] emitter_initial)
       = [(3000, \<lparr>fallbackSeconds = 7, origin = ''JavaScript'', firstAttemptCompleted = True\<rparr>)]"
    by simp
  from t4 i
  have c5: "fallbacks (emitter_run [StartListenerAsync, NativeResolved None, AnimationFrame 7,
                              Elapse 3000, TimerFire] emitter_initial)
       = [\<lparr>newFrameTimestampInSeconds = 7, isFallback = Some True\<rparr>]"
    by simp
  from q e1' d1 c1 c2 c3 c4 c5 show ?thesis by blast
qed

end
